theory Spec2Isabelle
  imports Main "HOL-Library.Word"
begin

section \<open>Values and exceptions\<close>

text \<open>
  A cell of the Settings sheet as pandas hands it out: a Python \<open>str\<close>, a Python
  \<open>int\<close>, a numpy integer (what the cells of a Value column of whole numbers only
  are: \<open>numpy.int64\<close>, whose type is not \<open>int\<close>), or a value of any other type
  (the float NaN of an empty cell, a bool, a date). Strings are lists of 8-bit
  characters, read as code points below 256.
\<close>

datatype cell = is_PyStr: PyStr string | is_PyInt: PyInt int | NumpyInt int | PyOther

text \<open>
  The exceptions of a run. \<open>BusinessException\<close> is the class of the repository and
  \<open>Exception\<close> the plain built-in that \<open>login\<close> raises; the next five are raised by
  the interpreter, bs4, pandas and ctypes at the places named in the definitions below;
  \<open>LibraryError\<close> is whatever an external call (requests, pyodbc, smtplib) raises,
  carrying its text.
\<close>

datatype exn =
    BusinessException string
  | Exception string
  | TypeError
  | AttributeError
  | KeyError
  | ValueError
  | ArgumentError
  | LibraryError string

section \<open>Configuration\<close>

text \<open>
  The Settings sheet is a list of rows (Name, Value). \<open>config[config['Name'] == key]\<close>
  keeps the rows whose Name equals the key, in order; a Name that is not a string never
  equals a string key.
\<close>

type_synonym config = "(cell \<times> cell) list"

definition matching_values :: "string \<Rightarrow> config \<Rightarrow> cell list" where
  "matching_values key config = map snd (filter (\<lambda>r. fst r = PyStr key) config)"

definition read_config_value :: "string \<Rightarrow> config \<Rightarrow> cell option" where
  "read_config_value key config =
     (case matching_values key config of
        [v] \<Rightarrow> if v \<noteq> PyStr [] \<and> (is_PyStr v \<or> is_PyInt v) then Some v else None
      | _ \<Rightarrow> None)"

section \<open>The HTML tree and the bs4 queries\<close>

text \<open>
  The tree that \<open>bs(page.text, 'html.parser')\<close> builds is taken as given. A tag has its
  name, the tokens of its \<open>class\<close> attribute (bs4 stores that attribute as a list), its
  other attributes and its children; a text node is a \<open>NavigableString\<close>.
\<close>

datatype node =
    Tag string "string list" "(string \<times> string) list" "node list"
  | NavigableString string

text \<open>
  \<open>walk\<close> lists the descendants of a node in document order, each with its following
  siblings, so that an element found by a query still knows where it sits.
\<close>

fun walk :: "node \<Rightarrow> (node \<times> node list) list"
  and walks :: "node list \<Rightarrow> (node \<times> node list) list" where
  "walk (Tag n c a cs) = walks cs"
| "walk (NavigableString s) = []"
| "walks [] = []"
| "walks (x # xs) = (x, xs) # walk x @ walks xs"

definition descendants :: "node \<Rightarrow> node list" where
  "descendants t = map fst (walk t)"

fun named :: "string \<Rightarrow> node \<Rightarrow> bool" where
  "named nm (Tag n c a cs) = (n = nm)"
| "named nm (NavigableString s) = False"

fun has_class :: "string \<Rightarrow> node \<Rightarrow> bool" where
  "has_class q (Tag n c a cs) = (q \<in> set c)"
| "has_class q (NavigableString s) = False"

fun get_attr :: "node \<Rightarrow> string \<Rightarrow> string option" where
  "get_attr (Tag n c a cs) k = map_of a k"
| "get_attr (NavigableString s) k = None"

definition has_attr :: "string \<Rightarrow> string \<Rightarrow> node \<Rightarrow> bool" where
  "has_attr k v x = (get_attr x k = Some v)"

definition find_all :: "string \<Rightarrow> node \<Rightarrow> node list" where
  "find_all nm t = filter (named nm) (descendants t)"

definition bs_find :: "(node \<Rightarrow> bool) \<Rightarrow> node \<Rightarrow> (node \<times> node list) option" where
  "bs_find P t = List.find (\<lambda>e. P (fst e)) (walk t)"

fun node_string :: "node \<Rightarrow> string" where
  "node_string (NavigableString s) = s"
| "node_string (Tag n c a cs) = []"

definition get_text :: "node \<Rightarrow> string" where
  "get_text t = concat (map node_string (descendants t))"

text \<open>\<open>str.strip()\<close>: the whitespace code points below 256.\<close>

definition py_space :: "char \<Rightarrow> bool" where
  "py_space ch = (of_char ch \<in> {9, 10, 11, 12, 13, 28, 29, 30, 31, 32, 133, 160 :: nat})"

definition strip :: "string \<Rightarrow> string" where
  "strip s = rev (dropWhile py_space (rev (dropWhile py_space s)))"

section \<open>Data frames\<close>

text \<open>
  A frame has its column labels and its rows; a cell is a string or missing (None, NaN).
\<close>

record dataframe =
  columns :: "string list"
  rows :: "string option list list"

definition pad :: "nat \<Rightarrow> string list \<Rightarrow> string option list" where
  "pad k r = map Some r @ replicate (k - length r) None"

text \<open>
  \<open>pd.DataFrame(row_data, columns=headers)\<close> on a list of lists: the rows are padded
  with missing cells to the longest one, and the number of labels must be that width.
  An empty list gives the empty frame with the labels.
\<close>

definition DataFrame :: "string list list \<Rightarrow> string list \<Rightarrow> exn + dataframe" where
  "DataFrame row_data headers =
     (if row_data = [] then Inr \<lparr>columns = headers, rows = []\<rparr>
      else let k = fold max (map length row_data) 0
           in if length headers \<noteq> k then Inl ValueError
              else Inr \<lparr>columns = headers, rows = map (pad k) row_data\<rparr>)"

text \<open>The cells of a row under a label, left to right.\<close>

definition cells_under :: "string list \<Rightarrow> 'a list \<Rightarrow> string \<Rightarrow> 'a list" where
  "cells_under cols r label = map snd (filter (\<lambda>cv. fst cv = label) (zip cols r))"

text \<open>
  \<open>results[results['Status'] == 'Open']\<close>. Without the label it is a KeyError; with the
  label once it keeps the rows whose cell is \<open>'Open'\<close>. With the label several times
  \<open>results['Status']\<close> is a frame and the indexing is pandas' \<open>where\<close> on a boolean
  frame, which is left to the parameter \<open>frame_where\<close>.
\<close>

definition status_open :: "(dataframe \<Rightarrow> exn + dataframe) \<Rightarrow> dataframe \<Rightarrow> exn + dataframe" where
  "status_open frame_where df =
     (case filter (\<lambda>c. c = ''Status'') (columns df) of
        [] \<Rightarrow> Inl KeyError
      | [c] \<Rightarrow> Inr (df\<lparr>rows := filter (\<lambda>r. cells_under (columns df) r ''Status'' = [Some ''Open'']) (rows df)\<rparr>)
      | _ \<Rightarrow> frame_where df)"

text \<open>\<open>results.loc[:, results.columns != 'Actions']\<close>\<close>

definition drop_actions :: "dataframe \<Rightarrow> dataframe" where
  "drop_actions df =
     \<lparr>columns = filter (\<lambda>c. c \<noteq> ''Actions'') (columns df),
      rows = map (\<lambda>r. map snd (filter (\<lambda>cv. fst cv \<noteq> ''Actions'') (zip (columns df) r))) (rows df)\<rparr>"

section \<open>The outside world\<close>

text \<open>
  A CREDENTIALW as \<open>CredReadW\<close> leaves it: the user name (a wide string, or NULL), the
  size of the blob, and the memory the blob pointer points at, byte by byte.
\<close>

record wincredential =
  UserName :: "string option"
  CredentialBlobSize :: "32 word"
  CredentialBlob :: "nat \<Rightarrow> 8 word"

record response =
  status_code :: int
  soup :: node

type_synonym form = "string \<times> string \<times> nat list"

record message =
  Subject :: string
  From :: string
  To :: cell
  attachment :: "(string option \<times> dataframe) option"
  content :: string

datatype db_call =
    Connect string string string "nat list"
  | Cursor
  | Execute "string option list list"
  | Commit
  | CursorClose

text \<open>
  The calls on the SMTP client. What a call raises inside the library, such as
  \<open>smtplib.SMTP\<close> given a server name that is a number, is an answer of the parameter
  \<open>smtp\<close> of the world.
\<close>

datatype smtp_call =
    SMTP cell cell
  | Ehlo
  | Starttls
  | Login string "nat list"
  | Sendmail string cell message
  | Quit

text \<open>The external calls of a run that completed, in order.\<close>

datatype event =
    CredReadW "string option"
  | CredFree
  | HttpGet cell
  | HttpPost cell form
  | Db db_call
  | Smtp smtp_call

text \<open>
  What a run meets outside the program: the Settings sheet, the credential vault, the
  web site (a response for each requested URL, or the text of the exception requests
  raises), the database driver and the SMTP server (for each call, the text of the
  exception it raises, if any), the e-mail package (see \<open>as_string\<close>), pandas'
  \<open>where\<close> (see \<open>status_open\<close>), and the text
  \<open>str(ex)\<close> of the exceptions that the program does not construct itself. Each answer
  depends on the call alone.
\<close>

record world =
  Settings :: config
  vault :: "string option \<Rightarrow> wincredential option"
  http_get :: "cell \<Rightarrow> string + response"
  http_post :: "cell \<Rightarrow> form \<Rightarrow> string + response"
  db :: "db_call \<Rightarrow> string option"
  smtp :: "smtp_call \<Rightarrow> string option"
  serialise :: "message \<Rightarrow> string option"
  frame_where :: "dataframe \<Rightarrow> exn + dataframe"
  exn_text :: "exn \<Rightarrow> string"

type_synonym session = "cell \<Rightarrow> string + response"

section \<open>wincred.get\_generic\_credential\<close>

fun map_exn :: "('a \<Rightarrow> exn + 'b) \<Rightarrow> 'a list \<Rightarrow> exn + 'b list" where
  "map_exn f [] = Inr []"
| "map_exn f (x # xs) =
     (case f x of
        Inl e \<Rightarrow> Inl e
      | Inr y \<Rightarrow> (case map_exn f xs of Inl e \<Rightarrow> Inl e | Inr ys \<Rightarrow> Inr (y # ys)))"

text \<open>
  \<open>int.from_bytes(cred_blob[pos:pos+2], 'little')\<close>. \<open>LPBYTE\<close> points at \<open>c_byte\<close>, a
  signed char, so the slice is a list of two signed integers, and \<open>int.from_bytes\<close>
  raises a ValueError on a negative one.
\<close>

definition from_bytes_little :: "int list \<Rightarrow> exn + nat" where
  "from_bytes_little bs =
     (if \<exists>b\<in>set bs. b < 0 \<or> 255 < b then Inl ValueError
      else Inr (foldr (\<lambda>b acc. nat b + 256 * acc) bs 0))"

definition password_as_list :: "wincredential \<Rightarrow> exn + nat list" where
  "password_as_list c =
     map_exn (\<lambda>pos. from_bytes_little [sint (CredentialBlob c pos), sint (CredentialBlob c (pos + 1))])
       (map (\<lambda>k. 2 * k) [0 ..< (unat (CredentialBlobSize c) + 1) div 2])"

text \<open>The argument as ctypes passes it for \<open>LPCWSTR\<close>: a string, NULL for None.\<close>

fun as_LPCWSTR :: "cell option \<Rightarrow> exn + string option" where
  "as_LPCWSTR None = Inr None"
| "as_LPCWSTR (Some (PyStr s)) = Inr (Some s)"
| "as_LPCWSTR (Some (PyInt n)) = Inl ArgumentError"
| "as_LPCWSTR (Some (NumpyInt n)) = Inl ArgumentError"
| "as_LPCWSTR (Some PyOther) = Inl ArgumentError"

type_synonym credential = "string option \<times> nat list"

definition get_generic_credential ::
  "world \<Rightarrow> cell option \<Rightarrow> (exn + credential option) \<times> event list" where
  "get_generic_credential w name =
     (case as_LPCWSTR name of
        Inl e \<Rightarrow> (Inl e, [])
      | Inr n \<Rightarrow>
          (case vault w n of
             None \<Rightarrow> (Inr None, [CredReadW n])
           | Some cred \<Rightarrow>
               (case password_as_list cred of
                  Inl e \<Rightarrow> (Inl e, [CredReadW n, CredFree])
                | Inr password \<Rightarrow> (Inr (Some (UserName cred, password)), [CredReadW n, CredFree]))))"

section \<open>login\<close>

text \<open>
  \<open>username, password = wincred.get_generic_credential(cred_name)\<close> unpacks the result:
  unpacking None is a TypeError. The session that \<open>login\<close> returns is the getter of the
  site.
\<close>

definition login :: "world \<Rightarrow> (exn + session) \<times> event list" where
  "login w =
     (let url = read_config_value ''login_url'' (Settings w);
          cred_name = read_config_value ''ACME_credential_name'' (Settings w)
      in case url of
           None \<Rightarrow> (Inl (BusinessException ''Unable to identify login URL in Config file.''), [])
         | Some u \<Rightarrow>
        (case cred_name of
           None \<Rightarrow> (Inl (BusinessException ''Unable to identify ACME credentail name in Config file.''), [])
         | Some cn \<Rightarrow>
        (case get_generic_credential w cred_name of
           (Inl e, ev) \<Rightarrow> (Inl e, ev)
         | (Inr None, ev) \<Rightarrow> (Inl TypeError, ev)
         | (Inr (Some (username, password)), ev) \<Rightarrow>
        (case username of
           None \<Rightarrow>
             (Inl (BusinessException ''Login credentials cannot be found in Windows Credential Manager.''), ev)
         | Some email \<Rightarrow>
        (case http_get w u of
           Inl t \<Rightarrow> (Inl (LibraryError t), ev)
         | Inr response \<Rightarrow>
        (case bs_find (\<lambda>x. named ''input'' x \<and> has_attr ''name'' ''_token'' x) (soup response) of
           None \<Rightarrow> (Inl TypeError, ev @ [HttpGet u])
         | Some (inp, sibs) \<Rightarrow>
        (case get_attr inp ''value'' of
           None \<Rightarrow> (Inl KeyError, ev @ [HttpGet u])
         | Some token \<Rightarrow>
        (case http_post w u (token, email, password) of
           Inl t \<Rightarrow> (Inl (LibraryError t), ev @ [HttpGet u])
         | Inr response' \<Rightarrow>
             if status_code response' \<noteq> 200
             then (Inl (Exception ''Unable to login into ACME Website.''),
                   ev @ [HttpGet u, HttpPost u (token, email, password)])
             else (Inr (http_get w), ev @ [HttpGet u, HttpPost u (token, email, password)])))))))))"

section \<open>scraping\<close>

definition page_rows :: "node \<Rightarrow> string list list" where
  "page_rows table_body =
     map (\<lambda>row. map (\<lambda>ele. strip (get_text ele)) (find_all ''td'' row)) (find_all ''tr'' table_body)"

text \<open>
  \<open>active_pg.findNextSibling('li').find('a').get('href')\<close>: each step on None is an
  AttributeError; the last one gives None when the link has no href.
\<close>

definition next_href :: "(node \<times> node list) option \<Rightarrow> exn + string option" where
  "next_href active_pg =
     (case active_pg of
        None \<Rightarrow> Inl AttributeError
      | Some (li, sibs) \<Rightarrow>
          (case List.find (named ''li'') sibs of
             None \<Rightarrow> Inl AttributeError
           | Some nxt \<Rightarrow>
               (case bs_find (named ''a'') nxt of
                  None \<Rightarrow> Inl AttributeError
                | Some (a, sibs') \<Rightarrow> Inr (get_attr a ''href''))))"

text \<open>The \<open>try\<close> with its bare \<open>except\<close>: any exception makes the next URL empty.\<close>

definition next_url :: "(node \<times> node list) option \<Rightarrow> string option" where
  "next_url active_pg = (case next_href active_pg of Inl e \<Rightarrow> Some [] | Inr h \<Rightarrow> h)"

text \<open>
  One pass of the \<open>while\<close> loop up to the test of the next URL: the fetch, the rows of
  the first table, and the next URL read from the pagination control.
\<close>

definition scraping_pass ::
  "session \<Rightarrow> cell option \<Rightarrow> (exn + (string list list \<times> node \<times> string option)) \<times> event list" where
  "scraping_pass session url =
     (case url of
        None \<Rightarrow> (Inl (BusinessException ''Unable to identify the URL for extraction.''), [])
      | Some u \<Rightarrow>
     (case session u of
        Inl t \<Rightarrow> (Inl (LibraryError t), [])
      | Inr page \<Rightarrow>
          if status_code page \<noteq> 200
          then (Inl (BusinessException ''Unable to extract data from provided URL.''), [HttpGet u])
          else
     (case bs_find (named ''table'') (soup page) of
        None \<Rightarrow> (Inl AttributeError, [HttpGet u])
      | Some (table_body, sibs) \<Rightarrow>
     (case bs_find (\<lambda>x. named ''ul'' x \<and> has_class ''page-numbers'' x) (soup page) of
        None \<Rightarrow> (Inl AttributeError, [HttpGet u])
      | Some (pg, sibs') \<Rightarrow>
          (Inr (page_rows table_body, soup page,
                next_url (bs_find (\<lambda>x. named ''li'' x \<and> has_attr ''aria-current'' ''page'' x) pg)),
           [HttpGet u])))))"

text \<open>
  The \<open>while\<close> loop, with the rows accumulated so far and the calls made so far. It
  need not end: the value None is a loop that runs forever.
\<close>

partial_function (option) crawl ::
  "session \<Rightarrow> cell option \<Rightarrow> string list list \<Rightarrow> event list
     \<Rightarrow> ((exn + (string list list \<times> node)) \<times> event list) option" where
  "crawl session url row_data ev =
     (case scraping_pass session url of
        (Inl e, ev') \<Rightarrow> Some (Inl e, ev @ ev')
      | (Inr (rs, sp, nxt), ev') \<Rightarrow>
          if nxt \<noteq> Some []
          then crawl session (map_option PyStr nxt) (row_data @ rs) (ev @ ev')
          else Some (Inr (row_data @ rs, sp), ev @ ev'))"

declare crawl.simps [code]

definition page_headers :: "node \<Rightarrow> string list" where
  "page_headers sp = map (\<lambda>i. strip (get_text i)) (find_all ''th'' sp)"

definition scraping :: "world \<Rightarrow> session \<Rightarrow> ((exn + dataframe) \<times> event list) option" where
  "scraping w session =
     (case crawl session (read_config_value ''extract_url'' (Settings w)) [] [] of
        None \<Rightarrow> None
      | Some (Inl e, ev) \<Rightarrow> Some (Inl e, ev)
      | Some (Inr (row_data, sp), ev) \<Rightarrow>
          Some (case DataFrame row_data (page_headers sp) of
                  Inl e \<Rightarrow> Inl e
                | Inr results \<Rightarrow>
                    (case status_open (frame_where w) results of
                       Inl e \<Rightarrow> Inl e
                     | Inr results' \<Rightarrow> Inr (drop_actions results')),
                ev))"

section \<open>insert\_into\_db\<close>

text \<open>
  \<open>row.WIID\<close> and the like: an AttributeError when the row has no such label, else the
  cells under it.
\<close>

definition row_attr :: "string list \<Rightarrow> string option list \<Rightarrow> string \<Rightarrow> exn + string option list" where
  "row_attr cols r label = (if label \<in> set cols then Inr (cells_under cols r label) else Inl AttributeError)"

definition row_params :: "string list \<Rightarrow> string option list \<Rightarrow> exn + string option list list" where
  "row_params cols r = map_exn (row_attr cols r) [''WIID'', ''Description'', ''Type'', ''Status'', ''Date'']"

fun insert_rows :: "world \<Rightarrow> string list \<Rightarrow> string option list list \<Rightarrow> exn option \<times> event list" where
  "insert_rows w cols [] = (None, [])"
| "insert_rows w cols (r # rs) =
     (case row_params cols r of
        Inl e \<Rightarrow> (Some e, [])
      | Inr ps \<Rightarrow>
          (case db w (Execute ps) of
             Some t \<Rightarrow> (Some (LibraryError t), [])
           | None \<Rightarrow> (case insert_rows w cols rs of (x, ev) \<Rightarrow> (x, Db (Execute ps) # ev))))"

text \<open>
  The connection string is built with \<open>+\<close>, so a server name that is an \<open>int\<close> is a
  TypeError. \<open>Connect\<close> carries its four parts: server, database, user and password.
\<close>

definition insert_into_db :: "world \<Rightarrow> dataframe \<Rightarrow> (exn + unit) \<times> event list" where
  "insert_into_db w results =
     (if 0 < length (rows results) then
        (let cred_name = read_config_value ''DB_credential_name'' (Settings w);
             server = read_config_value ''DB_server_name'' (Settings w)
         in case get_generic_credential w cred_name of
              (Inl e, ev) \<Rightarrow> (Inl e, ev)
            | (Inr None, ev) \<Rightarrow> (Inl TypeError, ev)
            | (Inr (Some (username, password)), ev) \<Rightarrow>
           (case (server, username) of
              (Some (PyStr srv), Some uid) \<Rightarrow>
                (case db w (Connect srv ''Automations'' uid password) of
                   Some t \<Rightarrow> (Inl (LibraryError t), ev)
                 | None \<Rightarrow>
                (case db w Cursor of
                   Some t \<Rightarrow> (Inl (LibraryError t), ev @ [Db (Connect srv ''Automations'' uid password)])
                 | None \<Rightarrow>
                (case insert_rows w (columns results) (rows results) of
                   (Some e, ev') \<Rightarrow>
                     (Inl e, ev @ [Db (Connect srv ''Automations'' uid password), Db Cursor] @ ev')
                 | (None, ev') \<Rightarrow>
                (case db w Commit of
                   Some t \<Rightarrow>
                     (Inl (LibraryError t), ev @ [Db (Connect srv ''Automations'' uid password), Db Cursor] @ ev')
                 | None \<Rightarrow>
                (case db w CursorClose of
                   Some t \<Rightarrow>
                     (Inl (LibraryError t),
                      ev @ [Db (Connect srv ''Automations'' uid password), Db Cursor] @ ev' @ [Db Commit])
                 | None \<Rightarrow>
                     (Inr (),
                      ev @ [Db (Connect srv ''Automations'' uid password), Db Cursor] @ ev'
                         @ [Db Commit, Db CursorClose]))))))
            | (Some (PyInt n), Some uid) \<Rightarrow> (Inl TypeError, ev)
            | (Some (NumpyInt n), Some uid) \<Rightarrow> (Inl TypeError, ev)
            | (Some PyOther, Some uid) \<Rightarrow> (Inl TypeError, ev)
            | _ \<Rightarrow>
                (Inl (BusinessException ''Unable to identify required parameters for SQL Server connection.''), ev)))
      else (Inl (BusinessException ''There are no work items available in ACME website to extract''), []))"

section \<open>send\_email\<close>







section \<open>main\<close>

text \<open>\<open>'BusinessException' in str(type(ex))\<close>\<close>

fun is_business :: "exn \<Rightarrow> bool" where
  "is_business (BusinessException m) = True"
| "is_business e = False"

text \<open>\<open>str(ex)\<close>: the message for the two classes the program raises itself.\<close>

fun str_exn :: "world \<Rightarrow> exn \<Rightarrow> string" where
  "str_exn w (BusinessException m) = m"
| "str_exn w (Exception m) = m"
| "str_exn w e = exn_text w e"




section \<open>Notions for the statements, and a fixture site\<close>

text \<open>
  The rows that one pass of the loop appends for the page at a URL: the rows of its first
  table.
\<close>

definition fetched_rows :: "session \<Rightarrow> cell \<Rightarrow> string list list" where
  "fetched_rows session u =
     (case session u of
        Inl t \<Rightarrow> []
      | Inr page \<Rightarrow> (case bs_find (named ''table'') (soup page) of None \<Rightarrow> [] | Some (t, sibs) \<Rightarrow> page_rows t))"

text \<open>
  What a finished loop leaves behind: the URLs it fetched, the tree of the page fetched
  last and the rows of all the pages, in order.
\<close>

definition crawl_post ::
  "session \<Rightarrow> string list list \<Rightarrow> event list \<Rightarrow> (exn + (string list list \<times> node)) \<times> event list \<Rightarrow> bool" where
  "crawl_post session row_data ev y =
     (\<forall>rd sp ev'. y = (Inr (rd, sp), ev') \<longrightarrow>
        (\<exists>us page. us \<noteq> [] \<and> ev' = ev @ map HttpGet us \<and> session (last us) = Inr page \<and>
           soup page = sp \<and> rd = row_data @ concat (map (fetched_rows session) us) \<and>
           (\<forall>u\<in>set us. \<exists>page t sibs. session u = Inr page \<and> status_code page = 200 \<and>
               bs_find (named ''table'') (soup page) = Some (t, sibs))))"

text \<open>A chain of pages: each one yields the next URL, the last one yields the empty one.\<close>

fun pages_chain :: "session \<Rightarrow> cell \<Rightarrow> cell list \<Rightarrow> bool" where
  "pages_chain session u [] =
     (case scraping_pass session (Some u) of
        (Inr (rs, sp, nxt), e) \<Rightarrow> nxt = Some []
      | (Inl x, e) \<Rightarrow> False)"
| "pages_chain session u (v # vs) =
     (case scraping_pass session (Some u) of
        (Inr (rs, sp, nxt), e) \<Rightarrow> nxt \<noteq> Some [] \<and> map_option PyStr nxt = Some v \<and> pages_chain session v vs
      | (Inl x, e) \<Rightarrow> False)"


text \<open>
  A fixture: a site of three listing pages (the first one with the header \<open>State\<close> in
  place of \<open>Status\<close>; the text of a header cell sits in a nested tag, between white
  space), a page whose next link has no \<open>href\<close>, a login page, the
  settings, the vault and a world in which every external call succeeds.
\<close>

definition header_cell :: "string \<Rightarrow> node" where
  "header_cell h =
     Tag ''th'' [] [] [NavigableString [CHR 0x0A, CHR '' ''], Tag ''b'' [] [] [NavigableString h], NavigableString '' '']"

definition header_row :: "string \<Rightarrow> node" where
  "header_row label = Tag ''tr'' [] []
     (map header_cell [''Actions'', ''WIID'', ''Description'', ''Type'', label, ''Date''])"

definition item_row :: "string \<Rightarrow> string \<Rightarrow> node" where
  "item_row wiid status = Tag ''tr'' [] []
     (map (\<lambda>c. Tag ''td'' [] [] [NavigableString c]) ['' '', wiid, ''item'', ''WI1'', status, ''2020-01-01''])"

definition listing :: "string \<Rightarrow> node list \<Rightarrow> node list \<Rightarrow> node" where
  "listing label items pager = Tag ''[document]'' [] []
     [Tag ''html'' [] []
        [Tag ''body'' [] []
           [Tag ''table'' [''table''] [] (header_row label # items),
            Tag ''ul'' [''page-numbers''] [] pager]]]"

definition current_li :: node where
  "current_li = Tag ''li'' [] [(''aria-current'', ''page'')] [NavigableString ''1'']"

definition next_li :: "(string \<times> string) list \<Rightarrow> node" where
  "next_li attrs = Tag ''li'' [] [] [Tag ''a'' [''page-numbers''] attrs [NavigableString ''>'']]"

definition token_input :: node where
  "token_input = Tag ''input'' [] [(''type'', ''hidden''), (''name'', ''_token''), (''value'', ''abc123'')] []"

definition email_input :: node where
  "email_input = Tag ''input'' [] [(''name'', ''email'')] []"

definition login_page :: node where
  "login_page = Tag ''[document]'' [] [] [Tag ''form'' [] [(''method'', ''POST'')] [token_input, email_input]]"

definition acme_site :: session where
  "acme_site u =
     (if u = PyStr ''p1'' then
        Inr \<lparr>status_code = 200,
             soup = listing ''State'' [item_row ''1'' ''Open'', item_row ''2'' ''Closed''] [current_li, next_li [(''href'', ''p2'')]]\<rparr>
      else if u = PyStr ''p2'' then
        Inr \<lparr>status_code = 200,
             soup = listing ''Status'' [item_row '' 3 '' ''Closed''] [current_li, next_li [(''href'', ''p3'')]]\<rparr>
      else if u = PyStr ''p3'' then
        Inr \<lparr>status_code = 200, soup = listing ''Status'' [item_row ''4'' ''Open''] [current_li]\<rparr>
      else if u = PyStr ''q1'' then
        Inr \<lparr>status_code = 200, soup = listing ''Status'' [item_row ''1'' ''Open''] [current_li, next_li []]\<rparr>
      else if u = PyStr ''login'' then Inr \<lparr>status_code = 200, soup = login_page\<rparr>
      else Inl ''ConnectionError'')"

definition acme_settings :: config where
  "acme_settings =
     [(PyStr ''login_url'', PyStr ''login''), (PyStr ''extract_url'', PyStr ''p1''),
      (PyStr ''ACME_credential_name'', PyStr ''acme''),
      (PyStr ''DB_credential_name'', PyStr ''sql''), (PyStr ''DB_server_name'', PyStr ''srv''),
      (PyStr ''email_server_name'', PyStr ''smtp''), (PyStr ''email_port'', PyInt 587),
      (PyStr ''email_credential_name'', PyStr ''mail''),
      (PyStr ''business_users'', PyStr ''biz''), (PyStr ''technical_users'', PyStr ''tech'')]"

definition bot_credential :: wincredential where
  "bot_credential =
     \<lparr>UserName = Some ''bot'', CredentialBlobSize = 4,
      CredentialBlob = (\<lambda>i. if i = 0 then 112 else if i = 2 then 119 else 0)\<rparr>"

definition acme_vault :: "string option \<Rightarrow> wincredential option" where
  "acme_vault n = (if n \<in> {Some ''acme'', Some ''sql'', Some ''mail''} then Some bot_credential else None)"

definition acme_world :: world where
  "acme_world =
     \<lparr>Settings = acme_settings, vault = acme_vault, http_get = acme_site,
      http_post = (\<lambda>u f. Inr \<lparr>status_code = 200, soup = NavigableString []\<rparr>),
      db = (\<lambda>c. None), smtp = (\<lambda>c. None), serialise = (\<lambda>m. None),
      frame_where = (\<lambda>df. Inl ValueError), exn_text = (\<lambda>e. ''error'')\<rparr>"

text \<open>What a run on the fixture accumulates and returns.\<close>

definition acme_row_data :: "string list list" where
  "acme_row_data =
     [[], [[], ''1'', ''item'', ''WI1'', ''Open'', ''2020-01-01''],
      [[], ''2'', ''item'', ''WI1'', ''Closed'', ''2020-01-01''],
      [], [[], ''3'', ''item'', ''WI1'', ''Closed'', ''2020-01-01''],
      [], [[], ''4'', ''item'', ''WI1'', ''Open'', ''2020-01-01'']]"

definition acme_first_page :: node where
  "acme_first_page =
     listing ''State'' [item_row ''1'' ''Open'', item_row ''2'' ''Closed''] [current_li, next_li [(''href'', ''p2'')]]"

definition acme_last_page :: node where
  "acme_last_page = listing ''Status'' [item_row ''4'' ''Open''] [current_li]"

definition acme_open_items :: dataframe where
  "acme_open_items =
     \<lparr>columns = [''WIID'', ''Description'', ''Type'', ''Status'', ''Date''],
      rows = [[Some ''1'', Some ''item'', Some ''WI1'', Some ''Open'', Some ''2020-01-01''],
              [Some ''4'', Some ''item'', Some ''WI1'', Some ''Open'', Some ''2020-01-01'']]\<rparr>"

text \<open>A response to the POST with a 200-class status other than 200.\<close>

definition created :: response where
  "created = \<lparr>status_code = 201, soup = NavigableString []\<rparr>"

text \<open>A credential whose password holds a byte above 127, and a driver that refuses every insert.\<close>

definition accent_credential :: wincredential where
  "accent_credential =
     \<lparr>UserName = Some ''bot'', CredentialBlobSize = 2,
      CredentialBlob = (\<lambda>i. if i = 0 then 233 else 0)\<rparr>"

fun failing_insert :: "db_call \<Rightarrow> string option" where
  "failing_insert (Execute ps) = Some ''IntegrityError''"
| "failing_insert c = None"


text \<open>The settings without the row of a key.\<close>

definition without :: "string \<Rightarrow> config \<Rightarrow> config" where
  "without key config = filter (\<lambda>r. fst r \<noteq> PyStr key) config"

section \<open>Properties of the configuration lookup\<close>

lemma length_one_conv: "(length xs = Suc 0) = (\<exists>x. xs = [x])"
  by (cases xs) auto

lemma filter_single_mem:
  assumes "filter P xs = [x]"
  shows "(y \<in> set xs \<and> P y) = (y = x)"
proof -
  have "(y \<in> set xs \<and> P y) = (y \<in> set (filter P xs))"
    by simp
  then show ?thesis
    using assms by simp
qed

lemma matching_values_single:
  "(matching_values key config = [v]) =
     (length (filter (\<lambda>r. fst r = PyStr key) config) = 1 \<and> (PyStr key, v) \<in> set config)"
proof
  assume h: "matching_values key config = [v]"
  then obtain r where r: "filter (\<lambda>r. fst r = PyStr key) config = [r]" and v: "snd r = v"
    by (auto simp: matching_values_def map_eq_Cons_conv)
  have "r \<in> set config \<and> fst r = PyStr key"
    using filter_single_mem [OF r, of r] by simp
  then have "(PyStr key, v) \<in> set config"
    using v by (cases r) auto
  then show "length (filter (\<lambda>r. fst r = PyStr key) config) = 1 \<and> (PyStr key, v) \<in> set config"
    using r by simp
next
  assume h: "length (filter (\<lambda>r. fst r = PyStr key) config) = 1 \<and> (PyStr key, v) \<in> set config"
  then obtain r where r: "filter (\<lambda>r. fst r = PyStr key) config = [r]"
    by (auto simp: length_one_conv)
  have "(PyStr key, v) = r"
    using filter_single_mem [OF r, of "(PyStr key, v)"] h by simp
  then show "matching_values key config = [v]"
    using r by (auto simp: matching_values_def)
qed

text \<open>
  C4, as amended. \<open>read_config_value\<close> returns a value \<open>v\<close> exactly when one row, and
  only one, has the key as its Name, that row's Value is \<open>v\<close>, \<open>v\<close> is not the empty
  string, and the type of \<open>v\<close> is \<open>str\<close> or \<open>int\<close> itself; the value comes back
  unchanged. In every other case (no matching row, several, an empty string, a value of
  another type, the numpy integer of a column of whole numbers included) it returns None.
\<close>

theorem read_config_value_iff:
  "(read_config_value key config = Some v) =
     (length (filter (\<lambda>r. fst r = PyStr key) config) = 1 \<and> (PyStr key, v) \<in> set config \<and>
      v \<noteq> PyStr [] \<and> (is_PyStr v \<or> is_PyInt v))
   \<and> (read_config_value key config = None) =
     (\<not> (\<exists>v. length (filter (\<lambda>r. fst r = PyStr key) config) = 1 \<and> (PyStr key, v) \<in> set config \<and>
      v \<noteq> PyStr [] \<and> (is_PyStr v \<or> is_PyInt v)))"
proof -
  have some: "(read_config_value key config = Some w) =
     (matching_values key config = [w] \<and> w \<noteq> PyStr [] \<and> (is_PyStr w \<or> is_PyInt w))" for w
    by (auto simp: read_config_value_def split: list.splits)
  have "(read_config_value key config = None) = (\<not> (\<exists>w. read_config_value key config = Some w))"
    by auto
  then show ?thesis
    unfolding some matching_values_single by blast
qed

theorem read_config_value_iff_witness:
  "read_config_value ''email_port'' [(PyStr ''login_url'', PyStr ''http://acme''), (PyStr ''email_port'', PyInt 587)]
     = Some (PyInt 587)
   \<and> read_config_value ''email_port'' [(PyStr ''email_port'', PyInt 25), (PyStr ''email_port'', PyInt 587)] = None
   \<and> read_config_value ''login_url'' [(PyStr ''login_url'', PyStr [])] = None
   \<and> read_config_value ''login_url'' [(PyStr ''login_url'', PyOther)] = None
   \<and> read_config_value ''login_url'' [] = None"
proof -
  have a: "read_config_value ''email_port''
             [(PyStr ''login_url'', PyStr ''http://acme''), (PyStr ''email_port'', PyInt 587)] = Some (PyInt 587)"
    using read_config_value_iff
      [of "''email_port''" "[(PyStr ''login_url'', PyStr ''http://acme''), (PyStr ''email_port'', PyInt 587)]"
          "PyInt 587"]
    by simp
  have b: "read_config_value ''email_port'' [(PyStr ''email_port'', PyInt 25), (PyStr ''email_port'', PyInt 587)] = None"
    using read_config_value_iff
      [of "''email_port''" "[(PyStr ''email_port'', PyInt 25), (PyStr ''email_port'', PyInt 587)]"]
    by simp
  have c: "read_config_value ''login_url'' [(PyStr ''login_url'', PyStr [])] = None"
    using read_config_value_iff [of "''login_url''" "[(PyStr ''login_url'', PyStr [])]"]
    by simp
  have d: "read_config_value ''login_url'' [(PyStr ''login_url'', PyOther)] = None"
    using read_config_value_iff [of "''login_url''" "[(PyStr ''login_url'', PyOther)]"]
    by simp
  have e: "read_config_value ''login_url'' [] = None"
    using read_config_value_iff [of "''login_url''" "[]"]
    by simp
  show ?thesis
    using a b c d e by simp
qed


text \<open>
  The sheet holds one row, with the port as the only Value: pandas hands it out as a
  numpy integer. One row matches, the value is an integer and not empty, and the lookup
  returns None.
\<close>

theorem read_config_value_numpy_integer:
  "length (filter (\<lambda>r. fst r = PyStr ''email_port'') [(PyStr ''email_port'', NumpyInt 587)]) = 1
   \<and> (PyStr ''email_port'', NumpyInt 587) \<in> set [(PyStr ''email_port'', NumpyInt 587)]
   \<and> NumpyInt 587 \<noteq> PyStr []
   \<and> read_config_value ''email_port'' [(PyStr ''email_port'', NumpyInt 587)] = None"
  by (simp add: read_config_value_def matching_values_def)

section \<open>The frame that scraping returns\<close>

lemma fold_max_bounds:
  "a \<le> fold max ns a \<and> (\<forall>n\<in>set ns. n \<le> fold max ns (a::nat))"
proof (induction ns arbitrary: a)
  case Nil
  then show ?case by simp
next
  case (Cons n ns)
  have "max n a \<le> fold max ns (max n a)" "\<forall>m\<in>set ns. m \<le> fold max ns (max n a)"
    using Cons.IH [of "max n a"] by auto
  then show ?case by auto
qed

lemma DataFrame_Inr:
  assumes "DataFrame row_data headers = Inr results"
  shows "columns results = headers \<and> rows results = map (pad (length headers)) row_data \<and>
         (\<forall>r\<in>set row_data. length r \<le> length headers)"
proof (cases "row_data = []")
  case True
  then show ?thesis using assms by (auto simp: DataFrame_def)
next
  case False
  then have k: "length headers = fold max (map length row_data) 0"
    and r: "results = \<lparr>columns = headers, rows = map (pad (length headers)) row_data\<rparr>"
    using assms by (auto simp: DataFrame_def Let_def split: if_splits)
  have "\<forall>r\<in>set row_data. length r \<le> length headers"
    using fold_max_bounds [of 0 "map length row_data"] k by auto
  then show ?thesis using r by simp
qed

lemma pad_nth:
  assumes "length r \<le> k"
  shows "length (pad k r) = k \<and> (\<forall>j<length r. pad k r ! j = Some (r ! j)) \<and>
         (\<forall>j. length r \<le> j \<and> j < k \<longrightarrow> pad k r ! j = None)"
  using assms by (auto simp: pad_def nth_append)

lemma under_drop:
  assumes "label \<noteq> a"
  shows "cells_under (filter (\<lambda>c. c \<noteq> a) cols) (map snd (filter (\<lambda>cv. fst cv \<noteq> a) (zip cols r))) label
           = cells_under cols r label"
proof (induction cols arbitrary: r)
  case Nil
  then show ?case by (simp add: cells_under_def)
next
  case (Cons c cols)
  show ?case
  proof (cases r)
    case Nil
    then show ?thesis by (simp add: cells_under_def)
  next
    case (Cons x xs)
    then show ?thesis
      using Cons.IH [of xs] assms by (auto simp: cells_under_def)
  qed
qed

lemma status_open_once:
  assumes "length (filter (\<lambda>c. c = ''Status'') (columns df)) = 1"
  shows "status_open fw df =
           Inr (df\<lparr>rows := filter (\<lambda>r. cells_under (columns df) r ''Status'' = [Some ''Open'']) (rows df)\<rparr>)"
proof -
  obtain c where "filter (\<lambda>c. c = ''Status'') (columns df) = [c]"
    using assms by (auto simp: length_one_conv)
  then show ?thesis by (simp add: status_open_def)
qed

lemma scraping_Inr:
  assumes "scraping w session = Some (Inr df, ev)"
  shows "\<exists>row_data sp results results'.
           crawl session (read_config_value ''extract_url'' (Settings w)) [] [] = Some (Inr (row_data, sp), ev) \<and>
           DataFrame row_data (page_headers sp) = Inr results \<and>
           status_open (frame_where w) results = Inr results' \<and> df = drop_actions results'"
  using assms
  by (auto simp: scraping_def split: option.splits sum.splits prod.splits)

text \<open>
  C2. When \<open>scraping\<close> returns a frame and the header cells of the last page name
  \<open>Status\<close> once, the frame has no \<open>Actions\<close> column, its columns are the header
  cells without \<open>Actions\<close>, in order, and under every other label its cells are those of
  the accumulated rows whose \<open>Status\<close> cell is \<open>'Open'\<close>, in order: exactly the Open
  rows, with all other columns and values kept. Every row of the frame has \<open>'Open'\<close>
  under \<open>Status\<close>.
\<close>

theorem scraping_open_rows:
  assumes run: "scraping w session = Some (Inr df, ev)"
    and loop: "crawl session (read_config_value ''extract_url'' (Settings w)) [] [] = Some (Inr (row_data, sp), ev)"
    and once: "length (filter (\<lambda>c. c = ''Status'') (page_headers sp)) = 1"
  shows "''Actions'' \<notin> set (columns df) \<and>
         columns df = filter (\<lambda>c. c \<noteq> ''Actions'') (page_headers sp) \<and>
         (\<forall>c. c \<noteq> ''Actions'' \<longrightarrow>
            map (\<lambda>r. cells_under (columns df) r c) (rows df) =
            map (\<lambda>r. cells_under (page_headers sp) r c)
              (filter (\<lambda>r. cells_under (page_headers sp) r ''Status'' = [Some ''Open''])
                 (map (pad (length (page_headers sp))) row_data))) \<and>
         (\<forall>r\<in>set (rows df). cells_under (columns df) r ''Status'' = [Some ''Open''])"
proof -
  from scraping_Inr [OF run] loop obtain results results' where
    fr: "DataFrame row_data (page_headers sp) = Inr results"
    and op: "status_open (frame_where w) results = Inr results'"
    and df: "df = drop_actions results'"
    by auto
  from DataFrame_Inr [OF fr] have cols: "columns results = page_headers sp"
    and rws: "rows results = map (pad (length (page_headers sp))) row_data"
    by auto
  have "status_open (frame_where w) results =
          Inr (results\<lparr>rows := filter (\<lambda>r. cells_under (columns results) r ''Status'' = [Some ''Open'']) (rows results)\<rparr>)"
    using once cols by (intro status_open_once) simp
  with op have r': "results' =
      results\<lparr>rows := filter (\<lambda>r. cells_under (page_headers sp) r ''Status'' = [Some ''Open''])
                        (map (pad (length (page_headers sp))) row_data)\<rparr>"
    using cols rws by simp
  have c1: "columns df = filter (\<lambda>c. c \<noteq> ''Actions'') (page_headers sp)"
    using df r' cols by (simp add: drop_actions_def)
  have c2: "map (\<lambda>r. cells_under (columns df) r c) (rows df) =
            map (\<lambda>r. cells_under (page_headers sp) r c)
              (filter (\<lambda>r. cells_under (page_headers sp) r ''Status'' = [Some ''Open''])
                 (map (pad (length (page_headers sp))) row_data))" if "c \<noteq> ''Actions''" for c
    using df r' cols by (simp add: drop_actions_def o_def under_drop [OF that])
  have c3: "\<forall>r\<in>set (rows df). cells_under (columns df) r ''Status'' = [Some ''Open'']"
  proof
    fix r assume "r \<in> set (rows df)"
    then have "cells_under (columns df) r ''Status'' \<in> set (map (\<lambda>r. cells_under (columns df) r ''Status'') (rows df))"
      by simp
    also have "\<dots> = set (map (\<lambda>r. cells_under (page_headers sp) r ''Status'')
              (filter (\<lambda>r. cells_under (page_headers sp) r ''Status'' = [Some ''Open''])
                 (map (pad (length (page_headers sp))) row_data)))"
      using c2 [of "''Status''"] by simp
    finally show "cells_under (columns df) r ''Status'' = [Some ''Open'']"
      by auto
  qed
  show ?thesis
    using c1 c2 c3 by simp
qed

section \<open>The crawl\<close>

lemma scraping_pass_Inr:
  assumes "scraping_pass session url = (Inr (rs, sp, nxt), ev)"
  shows "\<exists>u page t sibs. url = Some u \<and> session u = Inr page \<and> status_code page = 200 \<and>
           bs_find (named ''table'') (soup page) = Some (t, sibs) \<and> rs = page_rows t \<and>
           sp = soup page \<and> ev = [HttpGet u]"
  using assms
  by (auto simp: scraping_pass_def split: option.splits sum.splits if_splits)

lemma crawl_post_step:
  assumes IH: "\<And>u r e y. crawl' session u r e = Some y \<Longrightarrow> crawl_post session r e y"
    and body: "(case scraping_pass session url of
                  (Inl e, ev') \<Rightarrow> Some (Inl e, ev @ ev')
                | (Inr (rs, sp, nxt), ev') \<Rightarrow>
                    if nxt \<noteq> Some []
                    then crawl' session (map_option PyStr nxt) (row_data @ rs) (ev @ ev')
                    else Some (Inr (row_data @ rs, sp), ev @ ev')) = Some y"
  shows "crawl_post session row_data ev y"
  unfolding crawl_post_def
proof (intro allI impI)
  fix rd sp ev' assume y: "y = (Inr (rd, sp), ev')"
  obtain r pev where sp_eq: "scraping_pass session url = (r, pev)"
    by (cases "scraping_pass session url")
  show "\<exists>us page. us \<noteq> [] \<and> ev' = ev @ map HttpGet us \<and> session (last us) = Inr page \<and>
            soup page = sp \<and> rd = row_data @ concat (map (fetched_rows session) us) \<and>
            (\<forall>u\<in>set us. \<exists>page t sibs. session u = Inr page \<and> status_code page = 200 \<and>
                bs_find (named ''table'') (soup page) = Some (t, sibs))"
  proof (cases r)
    case (Inl e)
    then show ?thesis using body sp_eq y by simp
  next
    case (Inr q)
    obtain rs sp0 nxt where q: "q = (rs, sp0, nxt)" by (cases q)
    from scraping_pass_Inr [OF sp_eq [unfolded Inr q]]
    obtain u page t sibs where u: "url = Some u" "session u = Inr page" "status_code page = 200"
      "bs_find (named ''table'') (soup page) = Some (t, sibs)" "rs = page_rows t" "sp0 = soup page"
      "pev = [HttpGet u]"
      by blast
    have fr: "fetched_rows session u = rs"
      using u by (simp add: fetched_rows_def)
    show ?thesis
    proof (cases "nxt \<noteq> Some []")
      case True
      then have "crawl' session (map_option PyStr nxt) (row_data @ rs) (ev @ pev) = Some y"
        using body sp_eq Inr q by simp
      then have "crawl_post session (row_data @ rs) (ev @ pev) y"
        by (rule IH)
      then obtain us page' where us: "us \<noteq> []" "ev' = (ev @ pev) @ map HttpGet us"
        "session (last us) = Inr page'" "soup page' = sp"
        "rd = (row_data @ rs) @ concat (map (fetched_rows session) us)"
        "\<forall>u\<in>set us. \<exists>page t sibs. session u = Inr page \<and> status_code page = 200 \<and>
                bs_find (named ''table'') (soup page) = Some (t, sibs)"
        unfolding crawl_post_def using y by blast
      show ?thesis
        using us u fr by (intro exI [of _ "u # us"] exI [of _ page']) auto
    next
      case False
      then have "y = (Inr (row_data @ rs, sp0), ev @ pev)"
        using body sp_eq Inr q by simp
      then show ?thesis
        using y u fr by (intro exI [of _ "[u]"] exI [of _ page]) auto
    qed
  qed
qed

lemma crawl_trace:
  assumes "crawl session url row_data ev = Some y"
  shows "crawl_post session row_data ev y"
proof (rule crawl.raw_induct [where P = "\<lambda>s u r e y. crawl_post s r e y", OF _ assms])
  fix crawl' :: "session \<Rightarrow> cell option \<Rightarrow> string list list \<Rightarrow> event list
     \<Rightarrow> ((exn + (string list list \<times> node)) \<times> event list) option"
  fix session url row_data ev y
  assume IH: "\<And>s u r e y. crawl' s u r e = Some y \<Longrightarrow> crawl_post s r e y"
    and body: "(case scraping_pass session url of
                  (Inl e, ev') \<Rightarrow> Some (Inl e, ev @ ev')
                | (Inr (rs, sp, nxt), ev') \<Rightarrow>
                    if nxt \<noteq> Some []
                    then crawl' session (map_option PyStr nxt) (row_data @ rs) (ev @ ev')
                    else Some (Inr (row_data @ rs, sp), ev @ ev')) = Some y"
  show "crawl_post session row_data ev y"
    by (rule crawl_post_step [where crawl' = crawl', OF IH body])
qed

lemma scraping_run:
  assumes "scraping w session = Some (Inr df, ev)"
  shows "\<exists>us page results results'.
           us \<noteq> [] \<and> ev = map HttpGet us \<and> session (last us) = Inr page \<and>
           (\<forall>u\<in>set us. \<exists>pg t sibs. session u = Inr pg \<and> status_code pg = 200 \<and>
              bs_find (named ''table'') (soup pg) = Some (t, sibs)) \<and>
           DataFrame (concat (map (fetched_rows session) us)) (page_headers (soup page)) = Inr results \<and>
           status_open (frame_where w) results = Inr results' \<and> df = drop_actions results'"
proof -
  from scraping_Inr [OF assms] obtain row_data sp results results' where
    c: "crawl session (read_config_value ''extract_url'' (Settings w)) [] [] = Some (Inr (row_data, sp), ev)"
    and d: "DataFrame row_data (page_headers sp) = Inr results"
    and s: "status_open (frame_where w) results = Inr results'" "df = drop_actions results'"
    by blast
  from crawl_trace [OF c, unfolded crawl_post_def, rule_format, OF refl] obtain us page where
    us: "us \<noteq> []" "ev = [] @ map HttpGet us" "session (last us) = Inr page" "soup page = sp"
      "row_data = [] @ concat (map (fetched_rows session) us)"
      "\<forall>u\<in>set us. \<exists>page t sibs. session u = Inr page \<and> status_code page = 200 \<and>
                  bs_find (named ''table'') (soup page) = Some (t, sibs)"
    by blast
  show ?thesis
    using us d s by (intro exI [of _ us] exI [of _ page] exI [of _ results] exI [of _ results']) simp
qed

lemma scraping_frame_built:
  assumes "scraping w session = Some (Inr df, ev)"
  shows "\<exists>us page results results'.
           us \<noteq> [] \<and> ev = map HttpGet us \<and> session (last us) = Inr page \<and>
           DataFrame (concat (map (fetched_rows session) us)) (page_headers (soup page)) = Inr results \<and>
           columns results = page_headers (soup page) \<and>
           length (rows results) = length (concat (map (fetched_rows session) us)) \<and>
           (\<forall>i<length (rows results).
              length (rows results ! i) = length (page_headers (soup page)) \<and>
              (\<forall>j<length (concat (map (fetched_rows session) us) ! i).
                 rows results ! i ! j = Some (concat (map (fetched_rows session) us) ! i ! j))) \<and>
           status_open (frame_where w) results = Inr results' \<and> df = drop_actions results'"
proof -
  from scraping_run [OF assms] obtain us page results results' where
    us: "us \<noteq> []" "ev = map HttpGet us" "session (last us) = Inr page"
    and d: "DataFrame (concat (map (fetched_rows session) us)) (page_headers (soup page)) = Inr results"
    and s: "status_open (frame_where w) results = Inr results'" "df = drop_actions results'"
    by blast
  let ?rd = "concat (map (fetched_rows session) us)"
  let ?h = "page_headers (soup page)"
  from DataFrame_Inr [OF d] have cols: "columns results = ?h"
    and rws: "rows results = map (pad (length ?h)) ?rd"
    and le: "\<forall>r\<in>set ?rd. length r \<le> length ?h"
    by auto
  have pos: "\<forall>i<length (rows results).
              length (rows results ! i) = length ?h \<and>
              (\<forall>j<length (?rd ! i). rows results ! i ! j = Some (?rd ! i ! j))"
  proof (intro allI impI)
    fix i assume i: "i < length (rows results)"
    then have "i < length ?rd"
      using rws by simp
    then have "?rd ! i \<in> set ?rd"
      by (rule nth_mem)
    then have "length (?rd ! i) \<le> length ?h"
      using le by blast
    from pad_nth [OF this] show "length (rows results ! i) = length ?h \<and>
              (\<forall>j<length (?rd ! i). rows results ! i ! j = Some (?rd ! i ! j))"
      using rws i by simp
  qed
  show ?thesis
    using us d s cols pos rws
    by (intro exI [of _ us] exI [of _ page] exI [of _ results] exI [of _ results']) simp
qed

text \<open>
  C3. When \<open>scraping\<close> returns a frame after fetching the URLs \<open>us\<close>, the labels of
  the frame it builds are the texts, trimmed, of the \<open>th\<close> cells of the page fetched
  last, whatever the header cells of the earlier pages were, and the rows of every fetched
  page are all there, in order, each cell in the column of its position: row \<open>i\<close> has as
  many cells as there are labels, and its cell \<open>j\<close> is cell \<open>j\<close> of the accumulated
  row \<open>i\<close>.
\<close>

theorem scraping_headers_last_page:
  assumes "scraping w session = Some (Inr df, ev)"
  shows "\<exists>us page results results'.
           us \<noteq> [] \<and> ev = map HttpGet us \<and> session (last us) = Inr page \<and>
           DataFrame (concat (map (fetched_rows session) us))
             (map (\<lambda>th. strip (get_text th)) (find_all ''th'' (soup page))) = Inr results \<and>
           columns results = map (\<lambda>th. strip (get_text th)) (find_all ''th'' (soup page)) \<and>
           length (rows results) = length (concat (map (fetched_rows session) us)) \<and>
           (\<forall>i<length (rows results).
              length (rows results ! i) = length (find_all ''th'' (soup page)) \<and>
              (\<forall>j<length (concat (map (fetched_rows session) us) ! i).
                 rows results ! i ! j = Some (concat (map (fetched_rows session) us) ! i ! j))) \<and>
           status_open (frame_where w) results = Inr results' \<and> df = drop_actions results'"
  using scraping_frame_built [OF assms] unfolding page_headers_def length_map .

lemma page_rows_tr:
  "length (page_rows t) = length (find_all ''tr'' t) \<and>
   (\<forall>i<length (find_all ''tr'' t). find_all ''td'' (find_all ''tr'' t ! i) = [] \<longrightarrow> page_rows t ! i = [])"
  by (simp add: page_rows_def)

lemma pad_empty: "pad k [] = replicate k None"
  by (simp add: pad_def)

lemma missing_not_open:
  assumes "label \<in> set cols"
  shows "cells_under cols (replicate (length cols) None) label \<noteq> [Some v]"
proof -
  have "set (cells_under cols (replicate (length cols) None) label) \<subseteq> {None}"
    by (auto simp: cells_under_def dest!: set_zip_rightD)
  then have "Some v \<notin> set (cells_under cols (replicate (length cols) None) label)"
    by blast
  then show ?thesis
    by (metis list.set_intros(1))
qed

text \<open>
  C10. In a run of \<open>scraping\<close> that returns a frame, every fetched page contributes one
  entry for each \<open>tr\<close> of its table, and a \<open>tr\<close> without \<open>td\<close> cells (a header row of
  \<open>th\<close> cells) contributes the empty list. Such an entry is a row of the frame built
  from the accumulated rows, with every field missing; it is gone only after the filter on
  \<open>Status\<close>, since a missing cell is not \<open>'Open'\<close>.
\<close>

theorem scraping_header_rows:
  assumes "scraping w session = Some (Inr df, ev)"
  shows "\<exists>us page results results'.
           us \<noteq> [] \<and> ev = map HttpGet us \<and> session (last us) = Inr page \<and>
           (\<forall>u\<in>set us. \<exists>pg t sibs. session u = Inr pg \<and>
              bs_find (named ''table'') (soup pg) = Some (t, sibs) \<and>
              length (fetched_rows session u) = length (find_all ''tr'' t) \<and>
              (\<forall>i<length (find_all ''tr'' t).
                 find_all ''td'' (find_all ''tr'' t ! i) = [] \<longrightarrow> fetched_rows session u ! i = [])) \<and>
           DataFrame (concat (map (fetched_rows session) us)) (page_headers (soup page)) = Inr results \<and>
           length (rows results) = length (concat (map (fetched_rows session) us)) \<and>
           (\<forall>i<length (rows results).
              concat (map (fetched_rows session) us) ! i = [] \<longrightarrow>
              rows results ! i = replicate (length (columns results)) None) \<and>
           status_open (frame_where w) results = Inr results' \<and> df = drop_actions results' \<and>
           (length (filter (\<lambda>c. c = ''Status'') (columns results)) = 1 \<longrightarrow>
              replicate (length (columns results)) None \<notin> set (rows results'))"
proof -
  from scraping_run [OF assms] obtain us page results results' where
    us: "us \<noteq> []" "ev = map HttpGet us" "session (last us) = Inr page"
    and tb: "\<forall>u\<in>set us. \<exists>pg t sibs. session u = Inr pg \<and> status_code pg = 200 \<and>
              bs_find (named ''table'') (soup pg) = Some (t, sibs)"
    and d: "DataFrame (concat (map (fetched_rows session) us)) (page_headers (soup page)) = Inr results"
    and s: "status_open (frame_where w) results = Inr results'" "df = drop_actions results'"
    by blast
  let ?rd = "concat (map (fetched_rows session) us)"
  let ?h = "page_headers (soup page)"
  from DataFrame_Inr [OF d] have cols: "columns results = ?h"
    and rws: "rows results = map (pad (length ?h)) ?rd"
    by auto
  have a: "\<forall>u\<in>set us. \<exists>pg t sibs. session u = Inr pg \<and>
              bs_find (named ''table'') (soup pg) = Some (t, sibs) \<and>
              length (fetched_rows session u) = length (find_all ''tr'' t) \<and>
              (\<forall>i<length (find_all ''tr'' t).
                 find_all ''td'' (find_all ''tr'' t ! i) = [] \<longrightarrow> fetched_rows session u ! i = [])"
  proof
    fix u assume "u \<in> set us"
    with tb obtain pg t sibs where pg: "session u = Inr pg"
      "bs_find (named ''table'') (soup pg) = Some (t, sibs)"
      by blast
    then have "fetched_rows session u = page_rows t"
      by (simp add: fetched_rows_def)
    then show "\<exists>pg t sibs. session u = Inr pg \<and>
              bs_find (named ''table'') (soup pg) = Some (t, sibs) \<and>
              length (fetched_rows session u) = length (find_all ''tr'' t) \<and>
              (\<forall>i<length (find_all ''tr'' t).
                 find_all ''td'' (find_all ''tr'' t ! i) = [] \<longrightarrow> fetched_rows session u ! i = [])"
      using pg page_rows_tr [of t] by auto
  qed
  have b: "\<forall>i<length (rows results). ?rd ! i = [] \<longrightarrow>
              rows results ! i = replicate (length (columns results)) None"
    using rws cols by (simp add: pad_empty)
  have c: "replicate (length (columns results)) None \<notin> set (rows results')"
    if once: "length (filter (\<lambda>c. c = ''Status'') (columns results)) = 1"
  proof -
    have "filter (\<lambda>c. c = ''Status'') (columns results) \<noteq> []"
      using once by auto
    then have mem: "''Status'' \<in> set (columns results)"
      by (auto simp: filter_empty_conv)
    have "results' = results\<lparr>rows := filter (\<lambda>r. cells_under (columns results) r ''Status'' = [Some ''Open''])
                                         (rows results)\<rparr>"
      using status_open_once [OF once, of "frame_where w"] s by simp
    then show ?thesis
      using missing_not_open [OF mem, of "''Open''"] by auto
  qed
  show ?thesis
    using us a d s b c rws
    by (intro exI [of _ us] exI [of _ page] exI [of _ results] exI [of _ results']) simp
qed

section \<open>The crawl on the fixture\<close>

text \<open>
  On a chain of pages the loop ends, and it has fetched the pages of the chain, each one
  once, in order.
\<close>

lemma crawl_continue:
  assumes "scraping_pass session (Some u) = (Inr (rs, sp, nxt), e)" "nxt \<noteq> Some []"
  shows "crawl session (Some u) row_data ev = crawl session (map_option PyStr nxt) (row_data @ rs) (ev @ e)"
  by (subst crawl.simps) (simp only: assms prod.case sum.case if_True not_False_eq_True simp_thms)

lemma crawl_stop:
  assumes "scraping_pass session (Some u) = (Inr (rs, sp, Some []), e)"
  shows "crawl session (Some u) row_data ev = Some (Inr (row_data @ rs, sp), ev @ e)"
  by (subst crawl.simps) (simp only: assms prod.case sum.case if_False simp_thms)

lemma crawl_chain:
  "pages_chain session u vs \<Longrightarrow>
     \<exists>rd sp. crawl session (Some u) row_data ev = Some (Inr (rd, sp), ev @ map HttpGet (u # vs))"
proof (induction vs arbitrary: u row_data ev)
  case Nil
  then obtain rs sp e where p: "scraping_pass session (Some u) = (Inr (rs, sp, Some []), e)"
    by (auto split: prod.splits sum.splits)
  from scraping_pass_Inr [OF p] have "e = [HttpGet u]" by auto
  then show ?case
    using crawl_stop [OF p, of row_data ev] by simp
next
  case (Cons v vs)
  obtain r e where re: "scraping_pass session (Some u) = (r, e)"
    by (cases "scraping_pass session (Some u)")
  with Cons.prems obtain rs sp nxt where r: "r = Inr (rs, sp, nxt)"
    by (cases r) auto
  have p: "scraping_pass session (Some u) = (Inr (rs, sp, nxt), e)"
    using re r by simp
  from Cons.prems p have n: "nxt \<noteq> Some []" and m: "map_option PyStr nxt = Some v"
    and c: "pages_chain session v vs"
    by simp_all
  from scraping_pass_Inr [OF p] have e: "e = [HttpGet u]" by auto
  from Cons.IH [OF c, of "row_data @ rs" "ev @ e"] obtain rd sp' where
    ih: "crawl session (Some v) (row_data @ rs) (ev @ e) = Some (Inr (rd, sp'), (ev @ e) @ map HttpGet (v # vs))"
    by (elim exE)
  have "crawl session (Some u) row_data ev = crawl session (Some v) (row_data @ rs) (ev @ e)"
    using crawl_continue [OF p n, of row_data ev] by (simp only: m)
  also have "\<dots> = Some (Inr (rd, sp'), ev @ map HttpGet (u # v # vs))"
    using ih by (simp add: e)
  finally show ?case
    by (intro exI)
qed

text \<open>
  The three pages of the fixture form a chain, so the loop fetches each of them once, in
  order, and ends.
\<close>

lemma acme_chain: "pages_chain acme_site (PyStr ''p1'') [PyStr ''p2'', PyStr ''p3'']"
  by code_simp

lemma acme_scraping:
  "scraping acme_world acme_site =
     Some (Inr acme_open_items, [HttpGet (PyStr ''p1''), HttpGet (PyStr ''p2''), HttpGet (PyStr ''p3'')])"
  by code_simp

lemma acme_crawl:
  "crawl acme_site (read_config_value ''extract_url'' (Settings acme_world)) [] [] =
     Some (Inr (acme_row_data, acme_last_page),
           [HttpGet (PyStr ''p1''), HttpGet (PyStr ''p2''), HttpGet (PyStr ''p3'')])"
  by code_simp

lemma acme_status_once:
  "length (filter (\<lambda>c. c = ''Status'') (page_headers acme_last_page)) = 1"
  by code_simp

text \<open>
  C1. The page at \<open>q1\<close> has a next item whose link carries no \<open>href\<close>. The lookup
  raises nothing and gives None, which is not the empty string, so the loop goes on with
  the URL None: after one fetch the run ends in the BusinessException of the missing URL,
  not in the end of the pagination.
\<close>

theorem scraping_next_without_href:
  "next_href (Some (current_li, [next_li []])) = Inr None
   \<and> next_url (Some (current_li, [next_li []])) = None
   \<and> scraping (acme_world\<lparr>Settings := [(PyStr ''extract_url'', PyStr ''q1'')]\<rparr>) acme_site =
       Some (Inl (BusinessException ''Unable to identify the URL for extraction.''), [HttpGet (PyStr ''q1'')])"
  by code_simp

theorem scraping_open_rows_witness:
  "scraping acme_world acme_site =
     Some (Inr acme_open_items, [HttpGet (PyStr ''p1''), HttpGet (PyStr ''p2''), HttpGet (PyStr ''p3'')])
   \<and> ''Actions'' \<in> set (page_headers acme_last_page)
   \<and> [Some ''Closed''] \<in> set (map (\<lambda>r. cells_under (page_headers acme_last_page) r ''Status'')
                                (map (pad (length (page_headers acme_last_page))) acme_row_data))
   \<and> ''Actions'' \<notin> set (columns acme_open_items)
   \<and> columns acme_open_items = filter (\<lambda>c. c \<noteq> ''Actions'') (page_headers acme_last_page)
   \<and> map (\<lambda>r. cells_under (columns acme_open_items) r ''WIID'') (rows acme_open_items) = [[Some ''1''], [Some ''4'']]"
proof -
  note t = scraping_open_rows [OF acme_scraping acme_crawl acme_status_once]
  have a: "''Actions'' \<in> set (page_headers acme_last_page)"
    by code_simp
  have b: "[Some ''Closed''] \<in> set (map (\<lambda>r. cells_under (page_headers acme_last_page) r ''Status'')
                                (map (pad (length (page_headers acme_last_page))) acme_row_data))"
    by code_simp
  have c: "map (\<lambda>r. cells_under (page_headers acme_last_page) r ''WIID'')
              (filter (\<lambda>r. cells_under (page_headers acme_last_page) r ''Status'' = [Some ''Open''])
                 (map (pad (length (page_headers acme_last_page))) acme_row_data)) = [[Some ''1''], [Some ''4'']]"
    by code_simp
  have w: "''WIID'' \<noteq> ''Actions''"
    by simp
  note t3 = t [THEN conjunct2, THEN conjunct2, THEN conjunct1, rule_format, OF w]
  have d: "map (\<lambda>r. cells_under (columns acme_open_items) r ''WIID'') (rows acme_open_items)
                  = [[Some ''1''], [Some ''4'']]"
    by (rule trans [OF t3 c])
  note e = t [THEN conjunct1]
  note f = t [THEN conjunct2, THEN conjunct1]
  show ?thesis
    by (intro conjI acme_scraping a b d e f)
qed

lemma acme_headers:
  "map (\<lambda>th. strip (get_text th)) (find_all ''th'' acme_first_page)
     = [''Actions'', ''WIID'', ''Description'', ''Type'', ''State'', ''Date'']"
  "map (\<lambda>th. strip (get_text th)) (find_all ''th'' acme_last_page)
     = [''Actions'', ''WIID'', ''Description'', ''Type'', ''Status'', ''Date'']"
  by code_simp+

lemma acme_pages:
  "acme_site (PyStr ''p1'') = Inr \<lparr>status_code = 200, soup = acme_first_page\<rparr>"
  "acme_site (PyStr ''p3'') = Inr \<lparr>status_code = 200, soup = acme_last_page\<rparr>"
  by code_simp+

lemma acme_fetched:
  "concat (map (fetched_rows acme_site) [PyStr ''p1'', PyStr ''p2'', PyStr ''p3'']) = acme_row_data"
  by code_simp

lemma acme_cell: "length acme_row_data = 7" "4 < length (acme_row_data ! 1)" "acme_row_data ! 1 ! 4 = ''Open''"
  by code_simp+

theorem scraping_headers_last_page_witness:
  "scraping acme_world acme_site =
     Some (Inr acme_open_items, [HttpGet (PyStr ''p1''), HttpGet (PyStr ''p2''), HttpGet (PyStr ''p3'')])
   \<and> acme_site (PyStr ''p1'') = Inr \<lparr>status_code = 200, soup = acme_first_page\<rparr>
   \<and> map (\<lambda>th. strip (get_text th)) (find_all ''th'' acme_first_page)
       = [''Actions'', ''WIID'', ''Description'', ''Type'', ''State'', ''Date'']
   \<and> acme_site (PyStr ''p3'') = Inr \<lparr>status_code = 200, soup = acme_last_page\<rparr>
   \<and> (\<exists>results results'.
         DataFrame acme_row_data [''Actions'', ''WIID'', ''Description'', ''Type'', ''Status'', ''Date'']
           = Inr results \<and>
         columns results = [''Actions'', ''WIID'', ''Description'', ''Type'', ''Status'', ''Date''] \<and>
         length (rows results) = 7 \<and>
         length (rows results ! 1) = 6 \<and>
         rows results ! 1 ! 4 = Some ''Open'' \<and>
         status_open (frame_where acme_world) results = Inr results' \<and> acme_open_items = drop_actions results')"
proof -
  from scraping_headers_last_page [OF acme_scraping] obtain us page results results' where
    us: "[HttpGet (PyStr ''p1''), HttpGet (PyStr ''p2''), HttpGet (PyStr ''p3'')] = map HttpGet us"
    and pg: "acme_site (last us) = Inr page"
    and fr: "DataFrame (concat (map (fetched_rows acme_site) us))
               (map (\<lambda>th. strip (get_text th)) (find_all ''th'' (soup page))) = Inr results"
    and co: "columns results = map (\<lambda>th. strip (get_text th)) (find_all ''th'' (soup page))"
    and le: "length (rows results) = length (concat (map (fetched_rows acme_site) us))"
    and ps: "\<forall>i<length (rows results).
              length (rows results ! i) = length (find_all ''th'' (soup page)) \<and>
              (\<forall>j<length (concat (map (fetched_rows acme_site) us) ! i).
                 rows results ! i ! j = Some (concat (map (fetched_rows acme_site) us) ! i ! j))"
    and st: "status_open (frame_where acme_world) results = Inr results'"
    and dr: "acme_open_items = drop_actions results'"
    by (elim exE conjE)
  have u: "us = [PyStr ''p1'', PyStr ''p2'', PyStr ''p3'']"
    using us by (auto simp: Cons_eq_map_conv)
  have p: "soup page = acme_last_page"
    using pg by (auto simp: u acme_pages)
  have h: "length (find_all ''th'' acme_last_page) = 6"
    using arg_cong [OF acme_headers(2), of length] by simp
  have l: "length (rows results) = 7"
    using le by (simp only: u acme_fetched acme_cell)
  have "1 < length (rows results)"
    using l by simp
  with ps have r1: "length (rows results ! 1) = length (find_all ''th'' (soup page))"
    and r2: "\<forall>j<length (concat (map (fetched_rows acme_site) us) ! 1).
                 rows results ! 1 ! j = Some (concat (map (fetched_rows acme_site) us) ! 1 ! j)"
    by simp_all
  have c1: "length (rows results ! 1) = 6"
    using r1 by (simp only: p h)
  have c2: "rows results ! 1 ! 4 = Some ''Open''"
    using r2 acme_cell(2) by (simp only: u acme_fetched acme_cell(3))
  have e: "\<exists>results results'.
         DataFrame acme_row_data [''Actions'', ''WIID'', ''Description'', ''Type'', ''Status'', ''Date'']
           = Inr results \<and>
         columns results = [''Actions'', ''WIID'', ''Description'', ''Type'', ''Status'', ''Date''] \<and>
         length (rows results) = 7 \<and>
         length (rows results ! 1) = 6 \<and>
         rows results ! 1 ! 4 = Some ''Open'' \<and>
         status_open (frame_where acme_world) results = Inr results' \<and> acme_open_items = drop_actions results'"
  proof (intro exI conjI)
    show "DataFrame acme_row_data [''Actions'', ''WIID'', ''Description'', ''Type'', ''Status'', ''Date'']
            = Inr results"
      using fr by (simp only: u p acme_fetched acme_headers)
    show "columns results = [''Actions'', ''WIID'', ''Description'', ''Type'', ''Status'', ''Date'']"
      using co by (simp only: p acme_headers)
    show "length (rows results) = 7" by (rule l)
    show "length (rows results ! 1) = 6" by (rule c1)
    show "rows results ! 1 ! 4 = Some ''Open''" by (rule c2)
    show "status_open (frame_where acme_world) results = Inr results'" by (rule st)
    show "acme_open_items = drop_actions results'" by (rule dr)
  qed
  show ?thesis
    by (intro conjI acme_scraping acme_pages acme_headers(1) e)
qed

theorem scraping_header_rows_witness:
  "scraping acme_world acme_site =
     Some (Inr acme_open_items, [HttpGet (PyStr ''p1''), HttpGet (PyStr ''p2''), HttpGet (PyStr ''p3'')])
   \<and> (\<exists>us page results results'.
           us \<noteq> [] \<and> [HttpGet (PyStr ''p1''), HttpGet (PyStr ''p2''), HttpGet (PyStr ''p3'')] = map HttpGet us \<and>
           acme_site (last us) = Inr page \<and>
           (\<forall>u\<in>set us. \<exists>pg t sibs. acme_site u = Inr pg \<and>
              bs_find (named ''table'') (soup pg) = Some (t, sibs) \<and>
              length (fetched_rows acme_site u) = length (find_all ''tr'' t) \<and>
              (\<forall>i<length (find_all ''tr'' t).
                 find_all ''td'' (find_all ''tr'' t ! i) = [] \<longrightarrow> fetched_rows acme_site u ! i = [])) \<and>
           DataFrame (concat (map (fetched_rows acme_site) us)) (page_headers (soup page)) = Inr results \<and>
           length (rows results) = length (concat (map (fetched_rows acme_site) us)) \<and>
           (\<forall>i<length (rows results).
              concat (map (fetched_rows acme_site) us) ! i = [] \<longrightarrow>
              rows results ! i = replicate (length (columns results)) None) \<and>
           status_open (frame_where acme_world) results = Inr results' \<and> acme_open_items = drop_actions results' \<and>
           (length (filter (\<lambda>c. c = ''Status'') (columns results)) = 1 \<longrightarrow>
              replicate (length (columns results)) None \<notin> set (rows results')))"
  by (rule conjI [OF acme_scraping scraping_header_rows [OF acme_scraping]])

section \<open>Credentials and login\<close>

lemma map_exn_error:
  assumes "map_exn f xs = Inl e" and "\<And>x e. f x = Inl e \<Longrightarrow> P e"
  shows "P e"
  using assms(1)
proof (induction xs)
  case Nil
  then show ?case by simp
next
  case (Cons x xs)
  then show ?case
    using assms(2) by (auto split: sum.splits)
qed

lemma password_as_list_error: "password_as_list c = Inl e \<Longrightarrow> e = ValueError"
  unfolding password_as_list_def
  by (erule map_exn_error) (simp add: from_bytes_little_def split: if_splits)

lemma get_generic_credential_absent:
  assumes "as_LPCWSTR name = Inr n" "vault w n = None"
  shows "get_generic_credential w name = (Inr None, [CredReadW n])"
  using assms by (simp add: get_generic_credential_def)

lemma get_generic_credential_found:
  assumes "as_LPCWSTR name = Inr n" "vault w n = Some cred"
  shows "get_generic_credential w name =
           (case password_as_list cred of
              Inl e \<Rightarrow> Inl e
            | Inr password \<Rightarrow> Inr (Some (UserName cred, password)),
            [CredReadW n, CredFree])"
  using assms by (simp add: get_generic_credential_def split: sum.splits)

lemma get_generic_credential_error:
  assumes "get_generic_credential w name = (Inl e, ev)"
  shows "e = ArgumentError \<or> e = ValueError"
proof (cases "as_LPCWSTR name")
  case (Inl x)
  then have "x = ArgumentError"
    by (cases name rule: as_LPCWSTR.cases) auto
  then show ?thesis
    using assms Inl by (simp add: get_generic_credential_def)
next
  case (Inr n)
  then show ?thesis
    using assms password_as_list_error
    by (auto simp: get_generic_credential_def split: option.splits sum.splits)
qed

lemma get_generic_credential_events:
  "set (snd (get_generic_credential w name)) \<subseteq> range CredReadW \<union> {CredFree}"
  by (auto simp: get_generic_credential_def split: option.splits sum.splits)

lemma login_no_entry:
  assumes "read_config_value ''login_url'' (Settings w) = Some u"
    and "read_config_value ''ACME_credential_name'' (Settings w) = Some (PyStr n)"
    and "vault w (Some n) = None"
  shows "login w = (Inl TypeError, [CredReadW (Some n)])"
proof -
  have "get_generic_credential w (Some (PyStr n)) = (Inr None, [CredReadW (Some n)])"
    using assms(3) by (intro get_generic_credential_absent) simp_all
  then show ?thesis
    using assms(1,2) by (simp add: login_def)
qed

lemma login_after_post:
  assumes "read_config_value ''login_url'' (Settings w) = Some u"
    and "read_config_value ''ACME_credential_name'' (Settings w) = Some cn"
    and "get_generic_credential w (Some cn) = (Inr (Some (Some email, password)), ev)"
    and "http_get w u = Inr response"
    and "bs_find (\<lambda>x. named ''input'' x \<and> has_attr ''name'' ''_token'' x) (soup response) = Some (inp, sibs)"
    and "get_attr inp ''value'' = Some token"
    and "http_post w u (token, email, password) = Inr response'"
  shows "login w =
           (if status_code response' \<noteq> 200
            then (Inl (Exception ''Unable to login into ACME Website.''),
                  ev @ [HttpGet u, HttpPost u (token, email, password)])
            else (Inr (http_get w), ev @ [HttpGet u, HttpPost u (token, email, password)]))"
  using assms by (simp add: login_def)

lemma acme_settings_values:
  "read_config_value ''login_url'' acme_settings = Some (PyStr ''login'')"
  "read_config_value ''extract_url'' acme_settings = Some (PyStr ''p1'')"
  "read_config_value ''ACME_credential_name'' acme_settings = Some (PyStr ''acme'')"
  "read_config_value ''DB_credential_name'' acme_settings = Some (PyStr ''sql'')"
  "read_config_value ''DB_server_name'' acme_settings = Some (PyStr ''srv'')"
  "read_config_value ''email_server_name'' acme_settings = Some (PyStr ''smtp'')"
  "read_config_value ''email_port'' acme_settings = Some (PyInt 587)"
  "read_config_value ''email_credential_name'' acme_settings = Some (PyStr ''mail'')"
  "read_config_value ''business_users'' acme_settings = Some (PyStr ''biz'')"
  "read_config_value ''technical_users'' acme_settings = Some (PyStr ''tech'')"
  by code_simp+

lemma bot_password: "password_as_list bot_credential = Inr [112, 119]"
  by code_simp

lemma acme_token:
  "bs_find (\<lambda>x. named ''input'' x \<and> has_attr ''name'' ''_token'' x) login_page = Some (token_input, [email_input])"
  "get_attr token_input ''value'' = Some ''abc123''"
  by code_simp+

lemma acme_credential:
  assumes "vault w = acme_vault" "n \<in> {''acme'', ''sql'', ''mail''}"
  shows "get_generic_credential w (Some (PyStr n)) = (Inr (Some (Some ''bot'', [112, 119])), [CredReadW (Some n), CredFree])"
proof -
  have "vault w (Some n) = Some bot_credential"
    using assms by (auto simp: acme_vault_def)
  from get_generic_credential_found [OF _ this, of "Some (PyStr n)"] show ?thesis
    by (simp add: bot_password) (simp add: bot_credential_def)
qed

text \<open>
  C7. The vault has no entry under the configured credential name. The store client
  returns None, and \<open>login\<close> unpacks it into two names: a TypeError, which is not a
  BusinessException, raised before the test \<open>username is None\<close> is reached.
\<close>

theorem login_without_vault_entry:
  "get_generic_credential (acme_world\<lparr>vault := (\<lambda>n. None)\<rparr>) (Some (PyStr ''acme''))
     = (Inr None, [CredReadW (Some ''acme'')])
   \<and> login (acme_world\<lparr>vault := (\<lambda>n. None)\<rparr>) = (Inl TypeError, [CredReadW (Some ''acme'')])
   \<and> \<not> is_business TypeError"
proof -
  let ?w = "acme_world\<lparr>vault := (\<lambda>n. None)\<rparr>"
  have s: "Settings ?w = acme_settings" and v: "vault ?w (Some ''acme'') = None"
    by (simp_all add: acme_world_def)
  have a: "get_generic_credential ?w (Some (PyStr ''acme'')) = (Inr None, [CredReadW (Some ''acme'')])"
    using v by (intro get_generic_credential_absent) simp_all
  have b: "login ?w = (Inl TypeError, [CredReadW (Some ''acme'')])"
    using v by (intro login_no_entry) (simp_all only: s acme_settings_values)
  show ?thesis
    using a b by simp
qed

text \<open>
  C6, as amended. With a login URL, a credential with a user name and a login page that
  carries the token, \<open>login\<close> returns the session exactly when the status of the response
  to the POST is 200; with any other status, another 200-class one included, it fails
  with the message \<open>Unable to login into ACME Website.\<close>
\<close>

theorem login_post_status:
  assumes "read_config_value ''login_url'' (Settings w) = Some u"
    and "read_config_value ''ACME_credential_name'' (Settings w) = Some cn"
    and "get_generic_credential w (Some cn) = (Inr (Some (Some email, password)), ev)"
    and "http_get w u = Inr response"
    and "bs_find (\<lambda>x. named ''input'' x \<and> has_attr ''name'' ''_token'' x) (soup response) = Some (inp, sibs)"
    and "get_attr inp ''value'' = Some token"
    and "http_post w u (token, email, password) = Inr response'"
  shows "(status_code response' = 200 \<longrightarrow>
            login w = (Inr (http_get w), ev @ [HttpGet u, HttpPost u (token, email, password)]))
       \<and> (status_code response' \<noteq> 200 \<longrightarrow>
            (\<exists>e. login w = (Inl e, ev @ [HttpGet u, HttpPost u (token, email, password)]) \<and>
                 str_exn w e = ''Unable to login into ACME Website.''))"
  using login_after_post [OF assms] by simp

lemma acme_login_facts:
  assumes "Settings w = acme_settings" "vault w = acme_vault" "http_get w = acme_site"
  shows "read_config_value ''login_url'' (Settings w) = Some (PyStr ''login'')"
    and "read_config_value ''ACME_credential_name'' (Settings w) = Some (PyStr ''acme'')"
    and "get_generic_credential w (Some (PyStr ''acme''))
           = (Inr (Some (Some ''bot'', [112, 119])), [CredReadW (Some ''acme''), CredFree])"
    and "http_get w (PyStr ''login'') = Inr \<lparr>status_code = 200, soup = login_page\<rparr>"
    and "bs_find (\<lambda>x. named ''input'' x \<and> has_attr ''name'' ''_token'' x)
            (soup \<lparr>status_code = 200, soup = login_page\<rparr>) = Some (token_input, [email_input])"
proof -
  show "read_config_value ''login_url'' (Settings w) = Some (PyStr ''login'')"
    and "read_config_value ''ACME_credential_name'' (Settings w) = Some (PyStr ''acme'')"
    by (simp_all only: assms acme_settings_values)
  show "get_generic_credential w (Some (PyStr ''acme''))
           = (Inr (Some (Some ''bot'', [112, 119])), [CredReadW (Some ''acme''), CredFree])"
    using assms(2) by (intro acme_credential) simp_all
  show "http_get w (PyStr ''login'') = Inr \<lparr>status_code = 200, soup = login_page\<rparr>"
    by (simp add: assms acme_site_def)
  show "bs_find (\<lambda>x. named ''input'' x \<and> has_attr ''name'' ''_token'' x)
            (soup \<lparr>status_code = 200, soup = login_page\<rparr>) = Some (token_input, [email_input])"
    by (simp add: acme_token)
qed

theorem login_post_status_witness:
  "login acme_world =
     (Inr (http_get acme_world),
      [CredReadW (Some ''acme''), CredFree] @
      [HttpGet (PyStr ''login''), HttpPost (PyStr ''login'') (''abc123'', ''bot'', [112, 119])])
   \<and> (\<exists>e. login (acme_world\<lparr>http_post := (\<lambda>u f. Inr created)\<rparr>) =
            (Inl e, [CredReadW (Some ''acme''), CredFree] @
                    [HttpGet (PyStr ''login''), HttpPost (PyStr ''login'') (''abc123'', ''bot'', [112, 119])]) \<and>
          str_exn (acme_world\<lparr>http_post := (\<lambda>u f. Inr created)\<rparr>) e = ''Unable to login into ACME Website.'')"
proof -
  let ?w = "acme_world\<lparr>http_post := (\<lambda>u f. Inr created)\<rparr>"
  have w0: "Settings acme_world = acme_settings" "vault acme_world = acme_vault" "http_get acme_world = acme_site"
    and w1: "Settings ?w = acme_settings" "vault ?w = acme_vault" "http_get ?w = acme_site"
    by (simp_all add: acme_world_def)
  have p0: "http_post acme_world (PyStr ''login'') (''abc123'', ''bot'', [112, 119])
              = Inr \<lparr>status_code = 200, soup = NavigableString []\<rparr>"
    and p1: "http_post ?w (PyStr ''login'') (''abc123'', ''bot'', [112, 119]) = Inr created"
    by (simp_all add: acme_world_def)
  have a: "login acme_world =
     (Inr (http_get acme_world),
      [CredReadW (Some ''acme''), CredFree] @
      [HttpGet (PyStr ''login''), HttpPost (PyStr ''login'') (''abc123'', ''bot'', [112, 119])])"
    using login_post_status [OF acme_login_facts [OF w0] acme_token(2) p0] by simp
  have b: "\<exists>e. login ?w =
            (Inl e, [CredReadW (Some ''acme''), CredFree] @
                    [HttpGet (PyStr ''login''), HttpPost (PyStr ''login'') (''abc123'', ''bot'', [112, 119])]) \<and>
          str_exn ?w e = ''Unable to login into ACME Website.''"
    using login_post_status [OF acme_login_facts [OF w1] acme_token(2) p1] by (simp add: created_def)
  show ?thesis
    by (rule conjI [OF a b])
qed

text \<open>
  The response to the POST has the status 201: \<open>login\<close> fails, and its exception is not
  a BusinessException.
\<close>

theorem login_status_201:
  "http_post (acme_world\<lparr>http_post := (\<lambda>u f. Inr created)\<rparr>) (PyStr ''login'') (''abc123'', ''bot'', [112, 119])
     = Inr created
   \<and> status_code created = 201
   \<and> login (acme_world\<lparr>http_post := (\<lambda>u f. Inr created)\<rparr>) =
       (Inl (Exception ''Unable to login into ACME Website.''),
        [CredReadW (Some ''acme''), CredFree, HttpGet (PyStr ''login''),
         HttpPost (PyStr ''login'') (''abc123'', ''bot'', [112, 119])])
   \<and> \<not> is_business (Exception ''Unable to login into ACME Website.'')"
proof -
  let ?w = "acme_world\<lparr>http_post := (\<lambda>u f. Inr created)\<rparr>"
  have w1: "Settings ?w = acme_settings" "vault ?w = acme_vault" "http_get ?w = acme_site"
    and p1: "http_post ?w (PyStr ''login'') (''abc123'', ''bot'', [112, 119]) = Inr created"
    by (simp_all add: acme_world_def)
  have c: "status_code created = 201"
    by (simp add: created_def)
  have l: "login ?w =
       (Inl (Exception ''Unable to login into ACME Website.''),
        [CredReadW (Some ''acme''), CredFree, HttpGet (PyStr ''login''),
         HttpPost (PyStr ''login'') (''abc123'', ''bot'', [112, 119])])"
    using login_after_post [OF acme_login_facts [OF w1] acme_token(2) p1] c by simp
  show ?thesis
    using p1 c l by simp
qed

section \<open>The database\<close>

lemma row_params_ok:
  assumes "set [''WIID'', ''Description'', ''Type'', ''Status'', ''Date''] \<subseteq> set cols"
  shows "row_params cols r =
           Inr (map (cells_under cols r) [''WIID'', ''Description'', ''Type'', ''Status'', ''Date''])"
  using assms by (simp add: row_params_def row_attr_def)

lemma row_params_error: "row_params cols r = Inl e \<Longrightarrow> e = AttributeError"
  unfolding row_params_def
  by (erule map_exn_error) (simp add: row_attr_def split: if_splits)

lemma insert_rows_ok:
  assumes "\<forall>c. db w c = None"
    and "set [''WIID'', ''Description'', ''Type'', ''Status'', ''Date''] \<subseteq> set cols"
  shows "insert_rows w cols rs =
           (None, map (\<lambda>r. Db (Execute (map (cells_under cols r)
                                   [''WIID'', ''Description'', ''Type'', ''Status'', ''Date'']))) rs)"
proof (induction rs)
  case Nil
  then show ?case by simp
next
  case (Cons r rs)
  then show ?case
    using assms(1) row_params_ok [OF assms(2), of r] by simp
qed

lemma insert_rows_error:
  "insert_rows w cols rs = (Some e, ev) \<Longrightarrow> e = AttributeError \<or> (\<exists>t. e = LibraryError t)"
proof (induction rs arbitrary: ev)
  case Nil
  then show ?case by simp
next
  case (Cons r rs)
  then show ?case
    using row_params_error [of cols r]
    by (auto split: sum.splits option.splits prod.splits)
qed

lemma insert_rows_events: "Db CursorClose \<notin> set (snd (insert_rows w cols rs))"
proof (induction rs)
  case Nil
  then show ?case by simp
next
  case (Cons r rs)
  then show ?case
    by (auto split: sum.splits option.splits prod.splits)
qed

lemma credential_events_no_db: "Db c \<notin> set (snd (get_generic_credential w name))"
  using get_generic_credential_events [of w name] by auto

text \<open>The steps of \<open>insert_into_db\<close> once the frame has rows and the parameters resolve.\<close>

lemma insert_into_db_connected:
  assumes "rows results \<noteq> []"
    and "read_config_value ''DB_server_name'' (Settings w) = Some (PyStr srv)"
    and "get_generic_credential w (read_config_value ''DB_credential_name'' (Settings w))
           = (Inr (Some (Some uid, password)), ev)"
    and "db w (Connect srv ''Automations'' uid password) = None"
    and "db w Cursor = None"
    and "insert_rows w (columns results) (rows results) = (x, ev')"
  shows "insert_into_db w results =
           (case x of
              Some e \<Rightarrow> (Inl e, ev @ [Db (Connect srv ''Automations'' uid password), Db Cursor] @ ev')
            | None \<Rightarrow>
                (case db w Commit of
                   Some t \<Rightarrow> (Inl (LibraryError t),
                              ev @ [Db (Connect srv ''Automations'' uid password), Db Cursor] @ ev')
                 | None \<Rightarrow>
                     (case db w CursorClose of
                        Some t \<Rightarrow> (Inl (LibraryError t),
                                   ev @ [Db (Connect srv ''Automations'' uid password), Db Cursor] @ ev'
                                      @ [Db Commit])
                      | None \<Rightarrow> (Inr (),
                                  ev @ [Db (Connect srv ''Automations'' uid password), Db Cursor] @ ev'
                                     @ [Db Commit, Db CursorClose]))))"
  using assms by (simp add: insert_into_db_def split: option.splits)

lemma insert_into_db_empty:
  assumes "rows results = []"
  shows "insert_into_db w results =
           (Inl (BusinessException ''There are no work items available in ACME website to extract''), [])"
  using assms by (simp add: insert_into_db_def)


lemma insert_into_db_error:
  assumes "rows results \<noteq> []" "insert_into_db w results = (Inl e, ev)"
  shows "e \<in> {ArgumentError, ValueError, TypeError, AttributeError,
              BusinessException ''Unable to identify required parameters for SQL Server connection.''}
         \<or> (\<exists>t. e = LibraryError t)"
proof -
  obtain r cev where g: "get_generic_credential w (read_config_value ''DB_credential_name'' (Settings w)) = (r, cev)"
    by (cases "get_generic_credential w (read_config_value ''DB_credential_name'' (Settings w))")
  obtain x iev where i: "insert_rows w (columns results) (rows results) = (x, iev)"
    by (cases "insert_rows w (columns results) (rows results)")
  show ?thesis
  proof (cases r)
    case (Inl e')
    then have "e = e'"
      using assms g by (simp add: insert_into_db_def)
    then show ?thesis
      using get_generic_credential_error [OF g [unfolded Inl]] by auto
  next
    case (Inr c)
    show ?thesis
      using assms g i Inr insert_rows_error [of w "columns results" "rows results"]
      by (auto simp: insert_into_db_def split: option.splits cell.splits prod.splits)
  qed
qed

lemma insert_into_db_cursor:
  "(Db CursorClose \<in> set (snd (insert_into_db w results))) = (fst (insert_into_db w results) = Inr ())"
proof (cases "rows results = []")
  case True
  then show ?thesis by (simp add: insert_into_db_empty)
next
  case False
  obtain r cev where g: "get_generic_credential w (read_config_value ''DB_credential_name'' (Settings w)) = (r, cev)"
    by (cases "get_generic_credential w (read_config_value ''DB_credential_name'' (Settings w))")
  obtain x iev where i: "insert_rows w (columns results) (rows results) = (x, iev)"
    by (cases "insert_rows w (columns results) (rows results)")
  have c: "Db CursorClose \<notin> set cev"
    using credential_events_no_db [of CursorClose w "read_config_value ''DB_credential_name'' (Settings w)"] g
    by simp
  have d: "Db CursorClose \<notin> set iev"
    using insert_rows_events [of w "columns results" "rows results"] i by simp
  show ?thesis
    using False g i c d
    by (auto simp: insert_into_db_def split: option.splits cell.splits prod.splits sum.splits)
qed

lemma acme_labels:
  "set [''WIID'', ''Description'', ''Type'', ''Status'', ''Date''] \<subseteq> set (columns acme_open_items)"
  by (simp add: acme_open_items_def)

lemma acme_events:
  "[CredReadW (Some ''sql''), CredFree] @ [Db (Connect ''srv'' ''Automations'' ''bot'' [112, 119]), Db Cursor] @
     map (\<lambda>r. Db (Execute (map (cells_under (columns acme_open_items) r)
                          [''WIID'', ''Description'', ''Type'', ''Status'', ''Date''])))
       (rows acme_open_items) @ [Db Commit, Db CursorClose]
   = [CredReadW (Some ''sql''), CredFree, Db (Connect ''srv'' ''Automations'' ''bot'' [112, 119]), Db Cursor,
      Db (Execute [[Some ''1''], [Some ''item''], [Some ''WI1''], [Some ''Open''], [Some ''2020-01-01'']]),
      Db (Execute [[Some ''4''], [Some ''item''], [Some ''WI1''], [Some ''Open''], [Some ''2020-01-01'']]),
      Db Commit, Db CursorClose]"
  by code_simp

lemma acme_insert:
  "insert_into_db acme_world acme_open_items =
     (Inr (),
      [CredReadW (Some ''sql''), CredFree, Db (Connect ''srv'' ''Automations'' ''bot'' [112, 119]), Db Cursor,
       Db (Execute [[Some ''1''], [Some ''item''], [Some ''WI1''], [Some ''Open''], [Some ''2020-01-01'']]),
       Db (Execute [[Some ''4''], [Some ''item''], [Some ''WI1''], [Some ''Open''], [Some ''2020-01-01'']]),
       Db Commit, Db CursorClose])"
  by code_simp

lemma insert_into_db_unidentified:
  assumes "rows results \<noteq> []"
    and "get_generic_credential w (read_config_value ''DB_credential_name'' (Settings w))
           = (Inr (Some (username, password)), ev)"
    and "read_config_value ''DB_server_name'' (Settings w) = None \<or> username = None"
  shows "insert_into_db w results =
           (Inl (BusinessException ''Unable to identify required parameters for SQL Server connection.''), ev)"
  using assms by (auto simp: insert_into_db_def split: option.splits cell.splits)

lemma insert_into_db_number:
  assumes "rows results \<noteq> []"
    and "get_generic_credential w (read_config_value ''DB_credential_name'' (Settings w))
           = (Inr (Some (Some uid, password)), ev)"
    and "read_config_value ''DB_server_name'' (Settings w) = Some (PyInt n)"
  shows "insert_into_db w results = (Inl TypeError, ev)"
  using assms by (simp add: insert_into_db_def)

lemma numbered_settings_values:
  "read_config_value ''DB_server_name''
     ((PyStr ''DB_server_name'', PyInt 5) # without ''DB_server_name'' acme_settings) = Some (PyInt 5)"
  "read_config_value ''DB_credential_name''
     ((PyStr ''DB_server_name'', PyInt 5) # without ''DB_server_name'' acme_settings) = Some (PyStr ''sql'')"
  "read_config_value ''DB_server_name'' (without ''DB_server_name'' acme_settings) = None"
  "read_config_value ''DB_credential_name'' (without ''DB_server_name'' acme_settings) = Some (PyStr ''sql'')"
  by code_simp+

text \<open>
  C5, as amended. \<open>insert_into_db\<close> raises the BusinessException of the missing work items
  exactly when the frame has no rows, and then it makes no call at all, so no connection
  is opened. With rows, a server name that is a string, a credential with a user name, the
  five labels among the columns and a driver that raises nothing, it connects once, inserts
  the rows one by one in order, commits once and closes the cursor. With rows and a
  credential read from the vault, it raises the BusinessException of the unidentified
  parameters when the server name is missing or the credential has no user name, and a
  TypeError when the server name is an integer and the credential has a user name; in both
  cases the only calls are those of the credential lookup, so no connection is opened.
\<close>

theorem insert_into_db_cases:
  "(fst (insert_into_db w results) =
      Inl (BusinessException ''There are no work items available in ACME website to extract''))
     = (rows results = [])
   \<and> (rows results = [] \<longrightarrow> snd (insert_into_db w results) = [])
   \<and> (rows results \<noteq> [] \<and>
       read_config_value ''DB_server_name'' (Settings w) = Some (PyStr srv) \<and>
       get_generic_credential w (read_config_value ''DB_credential_name'' (Settings w))
         = (Inr (Some (Some uid, password)), ev) \<and>
       (\<forall>c. db w c = None) \<and>
       set [''WIID'', ''Description'', ''Type'', ''Status'', ''Date''] \<subseteq> set (columns results)
       \<longrightarrow> insert_into_db w results =
             (Inr (),
              ev @ [Db (Connect srv ''Automations'' uid password), Db Cursor] @
              map (\<lambda>r. Db (Execute (map (cells_under (columns results) r)
                                   [''WIID'', ''Description'', ''Type'', ''Status'', ''Date''])))
                (rows results) @ [Db Commit, Db CursorClose]))
   \<and> (rows results \<noteq> [] \<and>
       get_generic_credential w (read_config_value ''DB_credential_name'' (Settings w))
         = (Inr (Some (username, password)), ev) \<and>
       (read_config_value ''DB_server_name'' (Settings w) = None \<or> username = None)
       \<longrightarrow> insert_into_db w results =
             (Inl (BusinessException ''Unable to identify required parameters for SQL Server connection.''),
              ev))
   \<and> (rows results \<noteq> [] \<and>
       get_generic_credential w (read_config_value ''DB_credential_name'' (Settings w))
         = (Inr (Some (Some uid, password)), ev) \<and>
       read_config_value ''DB_server_name'' (Settings w) = Some (PyInt n)
       \<longrightarrow> insert_into_db w results = (Inl TypeError, ev))"
proof (intro conjI impI)
  show "(fst (insert_into_db w results) =
      Inl (BusinessException ''There are no work items available in ACME website to extract''))
     = (rows results = [])"
  proof
    assume a: "fst (insert_into_db w results) =
      Inl (BusinessException ''There are no work items available in ACME website to extract'')"
    show "rows results = []"
    proof (rule ccontr)
      assume ne: "rows results \<noteq> []"
      obtain ev where "insert_into_db w results =
        (Inl (BusinessException ''There are no work items available in ACME website to extract''), ev)"
        using a by (cases "insert_into_db w results") simp
      from insert_into_db_error [OF ne this] show False
        by simp
    qed
  next
    assume "rows results = []"
    then show "fst (insert_into_db w results) =
      Inl (BusinessException ''There are no work items available in ACME website to extract'')"
      by (simp add: insert_into_db_empty)
  qed
next
  assume "rows results = []"
  then show "snd (insert_into_db w results) = []"
    by (simp add: insert_into_db_empty)
next
  assume h: "rows results \<noteq> [] \<and>
       read_config_value ''DB_server_name'' (Settings w) = Some (PyStr srv) \<and>
       get_generic_credential w (read_config_value ''DB_credential_name'' (Settings w))
         = (Inr (Some (Some uid, password)), ev) \<and>
       (\<forall>c. db w c = None) \<and>
       set [''WIID'', ''Description'', ''Type'', ''Status'', ''Date''] \<subseteq> set (columns results)"
  then have d: "\<forall>c. db w c = None"
    and l: "set [''WIID'', ''Description'', ''Type'', ''Status'', ''Date''] \<subseteq> set (columns results)"
    by simp_all
  from h d insert_into_db_connected [OF _ _ _ _ _ insert_rows_ok [OF d l, of "rows results"], of srv uid password ev]
  show "insert_into_db w results =
             (Inr (),
              ev @ [Db (Connect srv ''Automations'' uid password), Db Cursor] @
              map (\<lambda>r. Db (Execute (map (cells_under (columns results) r)
                                   [''WIID'', ''Description'', ''Type'', ''Status'', ''Date''])))
                (rows results) @ [Db Commit, Db CursorClose])"
    by simp
next
  assume h: "rows results \<noteq> [] \<and>
       get_generic_credential w (read_config_value ''DB_credential_name'' (Settings w))
         = (Inr (Some (username, password)), ev) \<and>
       (read_config_value ''DB_server_name'' (Settings w) = None \<or> username = None)"
  show "insert_into_db w results =
          (Inl (BusinessException ''Unable to identify required parameters for SQL Server connection.''), ev)"
    by (rule insert_into_db_unidentified [OF h [THEN conjunct1] h [THEN conjunct2, THEN conjunct1]
                                             h [THEN conjunct2, THEN conjunct2]])
next
  assume h: "rows results \<noteq> [] \<and>
       get_generic_credential w (read_config_value ''DB_credential_name'' (Settings w))
         = (Inr (Some (Some uid, password)), ev) \<and>
       read_config_value ''DB_server_name'' (Settings w) = Some (PyInt n)"
  show "insert_into_db w results = (Inl TypeError, ev)"
    by (rule insert_into_db_number [OF h [THEN conjunct1] h [THEN conjunct2, THEN conjunct1]
                                       h [THEN conjunct2, THEN conjunct2]])
qed

theorem insert_into_db_cases_witness:
  "insert_into_db acme_world acme_open_items =
     (Inr (),
      [CredReadW (Some ''sql''), CredFree, Db (Connect ''srv'' ''Automations'' ''bot'' [112, 119]), Db Cursor,
       Db (Execute [[Some ''1''], [Some ''item''], [Some ''WI1''], [Some ''Open''], [Some ''2020-01-01'']]),
       Db (Execute [[Some ''4''], [Some ''item''], [Some ''WI1''], [Some ''Open''], [Some ''2020-01-01'']]),
       Db Commit, Db CursorClose])
   \<and> insert_into_db acme_world (acme_open_items\<lparr>rows := []\<rparr>) =
       (Inl (BusinessException ''There are no work items available in ACME website to extract''), [])
   \<and> insert_into_db (acme_world\<lparr>Settings := without ''DB_server_name'' acme_settings\<rparr>) acme_open_items =
       (Inl (BusinessException ''Unable to identify required parameters for SQL Server connection.''),
        [CredReadW (Some ''sql''), CredFree])
   \<and> insert_into_db (acme_world\<lparr>vault := (\<lambda>n. Some (bot_credential\<lparr>UserName := None\<rparr>))\<rparr>) acme_open_items =
       (Inl (BusinessException ''Unable to identify required parameters for SQL Server connection.''),
        [CredReadW (Some ''sql''), CredFree])
   \<and> insert_into_db
       (acme_world\<lparr>Settings := (PyStr ''DB_server_name'', PyInt 5) # without ''DB_server_name'' acme_settings\<rparr>)
       acme_open_items =
         (Inl TypeError, [CredReadW (Some ''sql''), CredFree])"
proof -
  have w: "Settings acme_world = acme_settings" "vault acme_world = acme_vault" "\<forall>c. db acme_world c = None"
    by (simp_all add: acme_world_def)
  have ne: "rows acme_open_items \<noteq> []"
    by (simp add: acme_open_items_def)
  have cr: "get_generic_credential acme_world (read_config_value ''DB_credential_name'' (Settings acme_world))
              = (Inr (Some (Some ''bot'', [112, 119])), [CredReadW (Some ''sql''), CredFree])"
    unfolding w(1) acme_settings_values using w(2) by (intro acme_credential) simp_all
  have sv: "read_config_value ''DB_server_name'' (Settings acme_world) = Some (PyStr ''srv'')"
    unfolding w(1) by (rule acme_settings_values)
  note t = insert_into_db_cases [of acme_world acme_open_items "''srv''" "''bot''" "[112, 119]"
                                     "[CredReadW (Some ''sql''), CredFree]"]
  have a: "insert_into_db acme_world acme_open_items =
     (Inr (),
      [CredReadW (Some ''sql''), CredFree] @ [Db (Connect ''srv'' ''Automations'' ''bot'' [112, 119]), Db Cursor] @
      map (\<lambda>r. Db (Execute (map (cells_under (columns acme_open_items) r)
                          [''WIID'', ''Description'', ''Type'', ''Status'', ''Date''])))
       (rows acme_open_items) @ [Db Commit, Db CursorClose])"
    by (rule t [THEN conjunct2, THEN conjunct2, THEN conjunct1, rule_format])
       (intro conjI ne sv cr w(3) acme_labels)
  note u = insert_into_db_cases [of acme_world "acme_open_items\<lparr>rows := []\<rparr>"]
  have e: "rows (acme_open_items\<lparr>rows := []\<rparr>) = []"
    by simp
  have b1: "fst (insert_into_db acme_world (acme_open_items\<lparr>rows := []\<rparr>)) =
       Inl (BusinessException ''There are no work items available in ACME website to extract'')"
    using u [THEN conjunct1] e by (simp only:)
  have b2: "snd (insert_into_db acme_world (acme_open_items\<lparr>rows := []\<rparr>)) = []"
    by (rule u [THEN conjunct2, THEN conjunct1, rule_format, OF e])
  have b: "insert_into_db acme_world (acme_open_items\<lparr>rows := []\<rparr>) =
       (Inl (BusinessException ''There are no work items available in ACME website to extract''), [])"
    using b1 b2 by (simp add: prod_eq_iff)
  let ?w1 = "acme_world\<lparr>Settings := without ''DB_server_name'' acme_settings\<rparr>"
  have c1: "get_generic_credential ?w1 (read_config_value ''DB_credential_name'' (Settings ?w1))
              = (Inr (Some (Some ''bot'', [112, 119])), [CredReadW (Some ''sql''), CredFree])"
    by (simp add: numbered_settings_values acme_credential w(2))
  have s1: "read_config_value ''DB_server_name'' (Settings ?w1) = None \<or> Some ''bot'' = None"
    by (simp add: numbered_settings_values)
  have c: "insert_into_db ?w1 acme_open_items =
       (Inl (BusinessException ''Unable to identify required parameters for SQL Server connection.''),
        [CredReadW (Some ''sql''), CredFree])"
    by (rule insert_into_db_cases [where username = "Some ''bot''" and password = "[112, 119]",
               THEN conjunct2, THEN conjunct2, THEN conjunct2, THEN conjunct1, rule_format])
       (intro conjI ne c1 s1)
  let ?w2 = "acme_world\<lparr>vault := (\<lambda>n. Some (bot_credential\<lparr>UserName := None\<rparr>))\<rparr>"
  have c2: "get_generic_credential ?w2 (read_config_value ''DB_credential_name'' (Settings ?w2))
              = (Inr (Some (None, [112, 119])), [CredReadW (Some ''sql''), CredFree])"
    by code_simp
  have s2: "read_config_value ''DB_server_name'' (Settings ?w2) = None \<or> (None :: string option) = None"
    by simp
  have d: "insert_into_db ?w2 acme_open_items =
       (Inl (BusinessException ''Unable to identify required parameters for SQL Server connection.''),
        [CredReadW (Some ''sql''), CredFree])"
    by (rule insert_into_db_cases [where username = None and password = "[112, 119]",
               THEN conjunct2, THEN conjunct2, THEN conjunct2, THEN conjunct1, rule_format])
       (intro conjI ne c2 s2)
  let ?w3 = "acme_world\<lparr>Settings := (PyStr ''DB_server_name'', PyInt 5) # without ''DB_server_name'' acme_settings\<rparr>"
  have c3: "get_generic_credential ?w3 (read_config_value ''DB_credential_name'' (Settings ?w3))
              = (Inr (Some (Some ''bot'', [112, 119])), [CredReadW (Some ''sql''), CredFree])"
    by (simp add: numbered_settings_values acme_credential w(2))
  have s3: "read_config_value ''DB_server_name'' (Settings ?w3) = Some (PyInt 5)"
    by (simp add: numbered_settings_values)
  have f: "insert_into_db ?w3 acme_open_items = (Inl TypeError, [CredReadW (Some ''sql''), CredFree])"
    by (rule insert_into_db_cases [where uid = "''bot''" and password = "[112, 119]" and n = 5,
               THEN conjunct2, THEN conjunct2, THEN conjunct2, THEN conjunct2, rule_format])
       (intro conjI ne c3 s3)
  show ?thesis
    using a b c d f by (simp only: acme_events simp_thms)
qed

text \<open>
  A frame of two rows and settings without the server name: a BusinessException, though
  the frame is not empty.
\<close>

theorem insert_into_db_without_server:
  "rows acme_open_items \<noteq> []
   \<and> insert_into_db (acme_world\<lparr>Settings := without ''DB_server_name'' acme_settings\<rparr>) acme_open_items =
       (Inl (BusinessException ''Unable to identify required parameters for SQL Server connection.''),
        [CredReadW (Some ''sql''), CredFree])
   \<and> is_business (BusinessException ''Unable to identify required parameters for SQL Server connection.'')"
  by code_simp

text \<open>
  C9, as amended. \<open>get_generic_credential\<close> frees the buffer whenever \<open>CredReadW\<close> has
  filled it, whether the extraction of the password returns or raises: the calls are the
  read and the free. \<open>insert_into_db\<close> closes the cursor only at the end of a run in which
  nothing raised, and it has no call that closes the connection.
\<close>

theorem resources_released:
  "(as_LPCWSTR name = Inr n \<and> vault w n = Some cred
      \<longrightarrow> snd (get_generic_credential w name) = [CredReadW n, CredFree])
   \<and> (Db CursorClose \<in> set (snd (insert_into_db w results))) = (fst (insert_into_db w results) = Inr ())"
proof (intro conjI impI)
  assume "as_LPCWSTR name = Inr n \<and> vault w n = Some cred"
  then show "snd (get_generic_credential w name) = [CredReadW n, CredFree]"
    using get_generic_credential_found [of name n w cred] by simp
next
  show "(Db CursorClose \<in> set (snd (insert_into_db w results))) = (fst (insert_into_db w results) = Inr ())"
    by (rule insert_into_db_cursor)
qed

theorem resources_released_witness:
  "password_as_list accent_credential = Inl ValueError
   \<and> snd (get_generic_credential (acme_world\<lparr>vault := (\<lambda>n. Some accent_credential)\<rparr>) (Some (PyStr ''acme'')))
       = [CredReadW (Some ''acme''), CredFree]
   \<and> password_as_list bot_credential = Inr [112, 119]
   \<and> snd (get_generic_credential acme_world (Some (PyStr ''acme''))) = [CredReadW (Some ''acme''), CredFree]
   \<and> fst (insert_into_db acme_world acme_open_items) = Inr ()
   \<and> Db CursorClose \<in> set (snd (insert_into_db acme_world acme_open_items))"
proof -
  let ?w = "acme_world\<lparr>vault := (\<lambda>n. Some accent_credential)\<rparr>"
  have a: "password_as_list accent_credential = Inl ValueError"
    by code_simp
  have v: "as_LPCWSTR (Some (PyStr ''acme'')) = Inr (Some ''acme'') \<and> vault ?w (Some ''acme'') = Some accent_credential"
    and v': "as_LPCWSTR (Some (PyStr ''acme'')) = Inr (Some ''acme'') \<and>
             vault acme_world (Some ''acme'') = Some bot_credential"
    by (simp_all add: acme_world_def acme_vault_def)
  note b = resources_released [THEN conjunct1, rule_format, OF v]
  note c = resources_released [THEN conjunct1, rule_format, OF v']
  have d: "fst (insert_into_db acme_world acme_open_items) = Inr ()"
    by (simp add: acme_insert)
  have e: "Db CursorClose \<in> set (snd (insert_into_db acme_world acme_open_items))"
    using resources_released [THEN conjunct2, of acme_world acme_open_items] d by (simp only:)
  show ?thesis
    by (intro conjI a b bot_password c d e)
qed

text \<open>
  The driver raises at the first insert: the calls are the connection and the cursor, and
  the cursor is never closed.
\<close>

theorem insert_into_db_raising_insert:
  "insert_into_db (acme_world\<lparr>db := failing_insert\<rparr>) acme_open_items =
     (Inl (LibraryError ''IntegrityError''),
      [CredReadW (Some ''sql''), CredFree, Db (Connect ''srv'' ''Automations'' ''bot'' [112, 119]), Db Cursor])
   \<and> Db CursorClose \<notin> set (snd (insert_into_db (acme_world\<lparr>db := failing_insert\<rparr>) acme_open_items))"
  by code_simp

section \<open>Notifications\<close>






















end
